theory Spec2Isabelle
  imports Main "HOL-Library.Sublist"
begin

section \<open>JavaScript strings\<close>

text \<open>
  Strings are lists of characters.  \<open>String.prototype.toLowerCase\<close> is modelled on
  ASCII text: the letters A to Z are mapped to a to z, every other character is kept.
\<close>

definition toLowerChar :: "char \<Rightarrow> char" where
  "toLowerChar c =
     (case map_of (zip ''ABCDEFGHIJKLMNOPQRSTUVWXYZ'' ''abcdefghijklmnopqrstuvwxyz'') c of
        Some l \<Rightarrow> l
      | None \<Rightarrow> c)"

definition toLowerCase :: "string \<Rightarrow> string" where
  "toLowerCase s = map toLowerChar s"

text \<open>\<open>s.startsWith(p)\<close> and \<open>s.includes(sub)\<close> of JavaScript strings.\<close>

fun startsWith :: "string \<Rightarrow> string \<Rightarrow> bool" where
  "startsWith s [] = True"
| "startsWith [] (p # ps) = False"
| "startsWith (c # cs) (p # ps) = (c = p \<and> startsWith cs ps)"

fun includes_str :: "string \<Rightarrow> string \<Rightarrow> bool" where
  "includes_str [] sub = (sub = [])"
| "includes_str (c # cs) sub = (startsWith (c # cs) sub \<or> includes_str cs sub)"

section \<open>Feedback records\<close>

text \<open>
  \<open>FeedbackItem.metadata\<close> is typed \<open>any\<close> in the source.  The model keeps the fields
  the code reads (\<open>labels\<close>, \<open>priority\<close>, \<open>state\<close>), each optional, and the remaining
  fields as an association list of scalars: \<open>JString\<close> for a string, \<open>JLiteral\<close> for the
  JSON text of a number or a boolean.  \<open>created_at\<close> is an ISO-8601 text in the source,
  used only through \<open>new Date(created_at)\<close> and the ordering of the store; the model keeps
  the instant it denotes, in milliseconds since the epoch.  The record is polymorphic in
  the metadata: a \<open>FeedbackItem\<close> has a metadata object, a row of the store has the JSON
  text of one.
\<close>

datatype json_scalar = JString string | JLiteral string

record metadata =
  labels :: "string list option"
  priority :: "string option"
  state :: "string option"
  other :: "(string \<times> json_scalar) list"

record 'm item_of =
  id_field :: string
  source_type :: string
  source_id :: string
  title :: string
  content :: string
  author :: string
  created_at :: int
  metadata :: 'm

type_synonym FeedbackItem = "metadata item_of"

text \<open>\<open>feedback.metadata.labels || []\<close>\<close>

definition labels_or_empty :: "FeedbackItem \<Rightarrow> string list" where
  "labels_or_empty f = (case labels (metadata f) of Some ls \<Rightarrow> ls | None \<Rightarrow> [])"

section \<open>Rule-based classifier: severity\<close>

text \<open>
  \<open>calculateSeverity\<close>: the variable \<open>severity\<close> starts at 1 and is updated by six
  consecutive \<open>if\<close> statements; the result is \<open>Math.min(severity, 5)\<close>.
\<close>

definition calculateSeverity :: "FeedbackItem \<Rightarrow> int" where
  "calculateSeverity feedback =
     (let severity0 = 1;
          text = toLowerCase (content feedback @ title feedback);
          lbls = labels_or_empty feedback;
          severity1 = (if ''critical'' \<in> set lbls \<or> includes_str text ''security''
                          \<or> includes_str text ''vulnerability''
                       then severity0 + 3 else severity0);
          severity2 = (if includes_str text ''crash'' \<or> includes_str text ''data loss''
                       then severity1 + 2 else severity1);
          severity3 = (if ''blocking'' \<in> set lbls \<or> includes_str text ''blocking''
                       then severity2 + 2 else severity2);
          severity4 = (if priority (metadata feedback) = Some ''high'' \<or> ''high'' \<in> set lbls
                       then severity3 + 1 else severity3);
          severity5 = (if source_type feedback = ''bug-report''
                       then severity4 + 1 else severity4);
          severity6 = (if source_type feedback = ''security-researcher''
                       then severity5 + 2 else severity5)
      in min severity6 5)"

text \<open>The six conditions of \<open>calculateSeverity\<close>, named for the statements below.\<close>

definition severity_text :: "FeedbackItem \<Rightarrow> string" where
  "severity_text f = toLowerCase (content f @ title f)"

definition rule_critical :: "FeedbackItem \<Rightarrow> bool" where
  "rule_critical f \<longleftrightarrow>
     ''critical'' \<in> set (labels_or_empty f) \<or> includes_str (severity_text f) ''security''
     \<or> includes_str (severity_text f) ''vulnerability''"

definition rule_crash :: "FeedbackItem \<Rightarrow> bool" where
  "rule_crash f \<longleftrightarrow>
     includes_str (severity_text f) ''crash'' \<or> includes_str (severity_text f) ''data loss''"

definition rule_blocking :: "FeedbackItem \<Rightarrow> bool" where
  "rule_blocking f \<longleftrightarrow>
     ''blocking'' \<in> set (labels_or_empty f) \<or> includes_str (severity_text f) ''blocking''"

definition rule_high :: "FeedbackItem \<Rightarrow> bool" where
  "rule_high f \<longleftrightarrow> priority (metadata f) = Some ''high'' \<or> ''high'' \<in> set (labels_or_empty f)"

definition rule_bug_report :: "FeedbackItem \<Rightarrow> bool" where
  "rule_bug_report f \<longleftrightarrow> source_type f = ''bug-report''"

definition rule_security_researcher :: "FeedbackItem \<Rightarrow> bool" where
  "rule_security_researcher f \<longleftrightarrow> source_type f = ''security-researcher''"

definition weight :: "bool \<Rightarrow> int \<Rightarrow> int" where
  "weight b w = (if b then w else 0)"

section \<open>Rule-based classifier: critical issues\<close>

text \<open>
  \<open>Array.prototype.sort\<close> with a comparator is a stable sort (ECMAScript 2019); it is
  modelled by insertion sort, which is stable: \<open>insert_by\<close> puts an element in front of the
  first element that it does not have to follow.
\<close>

definition criticalKeywords :: "string list" where
  "criticalKeywords =
     [''security'', ''vulnerability'', ''sql-injection'', ''crash'', ''data loss'',
      ''memory leak'', ''performance degradation'', ''blocking'', ''critical'',
      ''emergency'', ''breach'', ''exploit'']"

definition has_critical_keyword :: "FeedbackItem \<Rightarrow> bool" where
  "has_critical_keyword f =
     (let content_lc = toLowerCase (content f);
          title_lc = toLowerCase (title f);
          lbls = labels_or_empty f
      in \<exists>keyword \<in> set criticalKeywords.
           includes_str content_lc keyword \<or> includes_str title_lc keyword \<or>
           (\<exists>label \<in> set lbls. includes_str (toLowerCase label) keyword))"

definition compare_severity_recency :: "FeedbackItem \<Rightarrow> FeedbackItem \<Rightarrow> int" where
  "compare_severity_recency a b =
     (let aSeverity = calculateSeverity a; bSeverity = calculateSeverity b
      in if aSeverity \<noteq> bSeverity then bSeverity - aSeverity
         else created_at b - created_at a)"

fun insert_by :: "('a \<Rightarrow> 'a \<Rightarrow> int) \<Rightarrow> 'a \<Rightarrow> 'a list \<Rightarrow> 'a list" where
  "insert_by cmp x [] = [x]"
| "insert_by cmp x (y # ys) = (if cmp x y \<le> 0 then x # y # ys else y # insert_by cmp x ys)"

definition sort_by :: "('a \<Rightarrow> 'a \<Rightarrow> int) \<Rightarrow> 'a list \<Rightarrow> 'a list" where
  "sort_by cmp xs = foldr (insert_by cmp) xs []"

definition render_issue :: "FeedbackItem \<Rightarrow> string" where
  "render_issue f = title f @ '' ('' @ source_type f @ '')''"

definition critical_records :: "FeedbackItem list \<Rightarrow> FeedbackItem list" where
  "critical_records feedback =
     take 8 (sort_by compare_severity_recency (filter has_critical_keyword feedback))"

definition extractCriticalIssues :: "FeedbackItem list \<Rightarrow> string list" where
  "extractCriticalIssues feedback = map render_issue (critical_records feedback)"


section \<open>Quota tracker\<close>

text \<open>
  \<open>CLOUDFLARE_LIMITS\<close> and the \<open>FreeTierManager\<close>.  Its state is the map \<open>usageCache\<close>
  from counter keys to a count and the start of the window the count belongs to.  The wall
  clock \<open>Date.now()\<close> is the argument \<open>now\<close>, in milliseconds; \<open>new Date().setHours(0,0,0,0)\<close>
  is the start of the day of \<open>now\<close>, taken in UTC.
\<close>

definition AI_TOKENS_PER_DAY :: int where "AI_TOKENS_PER_DAY = 100000"
definition AI_RESERVED_TOKENS :: int where "AI_RESERVED_TOKENS = 10000"
definition D1_ROWS_READ_MONTHLY :: int where "D1_ROWS_READ_MONTHLY = 500000"
definition D1_ROWS_WRITTEN_MONTHLY :: int where "D1_ROWS_WRITTEN_MONTHLY = 100000"
definition D1_RESERVED_READS :: int where "D1_RESERVED_READS = 50000"
definition D1_RESERVED_WRITES :: int where "D1_RESERVED_WRITES = 10000"
definition KV_READS_DAILY :: int where "KV_READS_DAILY = 100000"
definition KV_WRITES_DAILY :: int where "KV_WRITES_DAILY = 1000"
definition KV_RESERVED_READS :: int where "KV_RESERVED_READS = 10000"
definition KV_RESERVED_WRITES :: int where "KV_RESERVED_WRITES = 100"

record usage =
  count :: int
  resetTime :: int

type_synonym usageCache = "string \<rightharpoonup> usage"

definition dayStart :: "int \<Rightarrow> int" where
  "dayStart now = now - now mod (24 * 60 * 60 * 1000)"

definition monthStart :: "int \<Rightarrow> int" where
  "monthStart now = now - now mod (30 * 24 * 60 * 60 * 1000)"

definition roll_over :: "string \<Rightarrow> int \<Rightarrow> usageCache \<Rightarrow> usageCache" where
  "roll_over key start usageCache =
     (if map_option resetTime (usageCache key) \<noteq> Some start
      then usageCache(key \<mapsto> \<lparr>count = 0, resetTime = start\<rparr>)
      else usageCache)"

definition count_or_zero :: "string \<Rightarrow> usageCache \<Rightarrow> int" where
  "count_or_zero key usageCache = (case usageCache key of Some u \<Rightarrow> count u | None \<Rightarrow> 0)"

definition canMakeAIRequest :: "int \<Rightarrow> int \<Rightarrow> usageCache \<Rightarrow> bool \<times> usageCache" where
  "canMakeAIRequest now estimatedTokens usageCache =
     (let key = ''ai:tokens:used'';
          usageCache' = roll_over key (dayStart now) usageCache;
          currentUsage = count_or_zero key usageCache'
      in (currentUsage + estimatedTokens < AI_TOKENS_PER_DAY - AI_RESERVED_TOKENS, usageCache'))"

definition recordAITokensUsed :: "int \<Rightarrow> int \<Rightarrow> usageCache \<Rightarrow> usageCache" where
  "recordAITokensUsed now tokens usageCache =
     (let key = ''ai:tokens:used''
      in case usageCache key of
           None \<Rightarrow> usageCache(key \<mapsto> \<lparr>count = tokens, resetTime = dayStart now\<rparr>)
         | Some current \<Rightarrow>
             if resetTime current \<noteq> dayStart now
             then usageCache(key \<mapsto> \<lparr>count = tokens, resetTime = dayStart now\<rparr>)
             else usageCache(key \<mapsto> current\<lparr>count := count current + tokens\<rparr>))"

definition canReadFromD1 :: "int \<Rightarrow> int \<Rightarrow> usageCache \<Rightarrow> bool \<times> usageCache" where
  "canReadFromD1 now estimatedRows usageCache =
     (let key = ''d1:reads:used'';
          usageCache' = roll_over key (monthStart now) usageCache;
          currentUsage = count_or_zero key usageCache'
      in (currentUsage + estimatedRows < D1_ROWS_READ_MONTHLY - D1_RESERVED_READS, usageCache'))"

definition canWriteToD1 :: "int \<Rightarrow> int \<Rightarrow> usageCache \<Rightarrow> bool \<times> usageCache" where
  "canWriteToD1 now estimatedRows usageCache =
     (let key = ''d1:writes:used'';
          usageCache' = roll_over key (monthStart now) usageCache;
          currentUsage = count_or_zero key usageCache'
      in (currentUsage + estimatedRows < D1_ROWS_WRITTEN_MONTHLY - D1_RESERVED_WRITES, usageCache'))"

definition canReadFromKV :: "int \<Rightarrow> usageCache \<Rightarrow> bool \<times> usageCache" where
  "canReadFromKV now usageCache =
     (let key = ''kv:reads:used'';
          usageCache' = roll_over key (dayStart now) usageCache;
          currentUsage = count_or_zero key usageCache'
      in (currentUsage < KV_READS_DAILY - KV_RESERVED_READS, usageCache'))"

definition canWriteToKV :: "int \<Rightarrow> usageCache \<Rightarrow> bool \<times> usageCache" where
  "canWriteToKV now usageCache =
     (let key = ''kv:writes:used'';
          usageCache' = roll_over key (dayStart now) usageCache;
          currentUsage = count_or_zero key usageCache'
      in (currentUsage < KV_WRITES_DAILY - KV_RESERVED_WRITES, usageCache'))"

text \<open>The usage count of the AI counter, and whether its window is the one of \<open>now\<close>.\<close>

definition used :: "usageCache \<Rightarrow> int" where
  "used usageCache = count_or_zero ''ai:tokens:used'' usageCache"

definition window_current :: "int \<Rightarrow> usageCache \<Rightarrow> bool" where
  "window_current now usageCache \<longleftrightarrow>
     map_option resetTime (usageCache ''ai:tokens:used'') = Some (dayStart now)"

definition used_after_rollover :: "int \<Rightarrow> usageCache \<Rightarrow> int" where
  "used_after_rollover now usageCache = (if window_current now usageCache then used usageCache else 0)"

text \<open>A trace of calls to the manager, each with the time of the call.\<close>

datatype quota_call = Check int | Record int | ReadD1 int | WriteD1 int | ReadKV | WriteKV

fun quota_step :: "int \<times> quota_call \<Rightarrow> usageCache \<Rightarrow> usageCache" where
  "quota_step (now, Check n) c = snd (canMakeAIRequest now n c)"
| "quota_step (now, Record tokens) c = recordAITokensUsed now tokens c"
| "quota_step (now, ReadD1 n) c = snd (canReadFromD1 now n c)"
| "quota_step (now, WriteD1 n) c = snd (canWriteToD1 now n c)"
| "quota_step (now, ReadKV) c = snd (canReadFromKV now c)"
| "quota_step (now, WriteKV) c = snd (canWriteToKV now c)"

definition quota_run :: "(int \<times> quota_call) list \<Rightarrow> usageCache \<Rightarrow> usageCache" where
  "quota_run calls c = fold quota_step calls c"

fun nonneg_record :: "int \<times> quota_call \<Rightarrow> bool" where
  "nonneg_record (now, Record tokens) = (0 \<le> tokens)"
| "nonneg_record _ = True"

section \<open>More of the JavaScript library\<close>

text \<open>\<open>Array.prototype.join\<close> on strings, and the decimal rendering of a count.\<close>

fun join :: "string \<Rightarrow> string list \<Rightarrow> string" where
  "join sep [] = []"
| "join sep [x] = x"
| "join sep (x # y # ys) = x @ sep @ join sep (y # ys)"

fun show_nat :: "nat \<Rightarrow> string" where
  "show_nat n =
     (if n < 10 then [''0123456789'' ! n]
      else show_nat (n div 10) @ [''0123456789'' ! (n mod 10)])"

declare show_nat.simps [simp del]

text \<open>
  \<open>xs.slice(-n)\<close>, the last \<open>n\<close> elements; \<open>[...new Set(xs)]\<close>, the distinct elements in
  the order of their first occurrence.
\<close>

definition slice_last :: "nat \<Rightarrow> 'a list \<Rightarrow> 'a list" where
  "slice_last n xs = drop (length xs - n) xs"

definition unique :: "'a list \<Rightarrow> 'a list" where
  "unique xs = rev (remdups (rev xs))"

text \<open>
  \<open>String.prototype.trim\<close> removes white space at both ends (here: space, tab, line feed,
  vertical tab, form feed, carriage return); \<open>s.split('\n')\<close> cuts a text into its lines.
\<close>

definition is_space :: "char \<Rightarrow> bool" where
  "is_space c \<longleftrightarrow> c \<in> set [CHR 0x20, CHR 0x09, CHR 0x0A, CHR 0x0B, CHR 0x0C, CHR 0x0D]"

definition trim :: "string \<Rightarrow> string" where
  "trim s = rev (dropWhile is_space (rev (dropWhile is_space s)))"

fun split_lines :: "string \<Rightarrow> string list" where
  "split_lines [] = [[]]"
| "split_lines (c # cs) =
     (if c = CHR 0x0A then [] # split_lines cs
      else (case split_lines cs of l # ls \<Rightarrow> (c # l) # ls | [] \<Rightarrow> [[c]]))"

text \<open>
  \<open>JSON.stringify\<close> on a metadata object.  A string is quoted, with the escapes of
  \<open>JSON.stringify\<close> for the quote, the backslash and the control characters.  The fields
  are written in the order \<open>labels\<close>, \<open>priority\<close>, \<open>state\<close>, then the others.
\<close>

definition hex_digit :: "nat \<Rightarrow> char" where
  "hex_digit n = ''0123456789abcdef'' ! (n mod 16)"

definition escape_char :: "char \<Rightarrow> string" where
  "escape_char c =
     (if c = CHR 0x22 then [CHR 0x5C, CHR 0x22]
      else if c = CHR 0x5C then [CHR 0x5C, CHR 0x5C]
      else if c = CHR 0x08 then [CHR 0x5C, CHR ''b'']
      else if c = CHR 0x09 then [CHR 0x5C, CHR ''t'']
      else if c = CHR 0x0A then [CHR 0x5C, CHR ''n'']
      else if c = CHR 0x0C then [CHR 0x5C, CHR ''f'']
      else if c = CHR 0x0D then [CHR 0x5C, CHR ''r'']
      else if (of_char c :: nat) < 32
        then [CHR 0x5C, CHR ''u'', CHR ''0'', CHR ''0'',
              hex_digit (of_char c div 16), hex_digit (of_char c)]
      else [c])"

definition quote :: "string \<Rightarrow> string" where
  "quote s = [CHR 0x22] @ concat (map escape_char s) @ [CHR 0x22]"

fun stringify_scalar :: "json_scalar \<Rightarrow> string" where
  "stringify_scalar (JString s) = quote s"
| "stringify_scalar (JLiteral t) = t"

definition stringify_field :: "string \<Rightarrow> string \<Rightarrow> string" where
  "stringify_field key text = quote key @ '':'' @ text"

definition JSON_stringify :: "metadata \<Rightarrow> string" where
  "JSON_stringify m =
     ''{'' @ join '',''
       ((case labels m of
           Some ls \<Rightarrow> [stringify_field ''labels'' (''['' @ join '','' (map quote ls) @ '']'')]
         | None \<Rightarrow> []) @
        (case priority m of Some p \<Rightarrow> [stringify_field ''priority'' (quote p)] | None \<Rightarrow> []) @
        (case state m of Some s \<Rightarrow> [stringify_field ''state'' (quote s)] | None \<Rightarrow> []) @
        map (\<lambda>(k, v). stringify_field k (stringify_scalar v)) (other m))
     @ ''}''"

text \<open>
  A text column that holds metadata: either the JSON text of a metadata object, which
  \<open>JSON.parse\<close> turns back into the object, or a text that \<open>JSON.parse\<close> rejects with a
  \<open>SyntaxError\<close>.
\<close>

datatype metadata_text = JsonText metadata | Unparseable string

datatype error = CacheError | DatabaseError | SyntaxError | TypeError

fun text_of :: "metadata_text \<Rightarrow> string" where
  "text_of (JsonText m) = JSON_stringify m"
| "text_of (Unparseable s) = s"

fun JSON_parse :: "metadata_text \<Rightarrow> error + metadata" where
  "JSON_parse (JsonText m) = Inr m"
| "JSON_parse (Unparseable s) = Inl SyntaxError"

definition empty_metadata :: metadata where
  "empty_metadata = \<lparr>labels = None, priority = None, state = None, other = []\<rparr>"

text \<open>\<open>conservativeAI.truncateForAI\<close> and \<open>conservativeAI.estimateTokens\<close>.\<close>

definition truncateForAI :: "string \<Rightarrow> nat \<Rightarrow> string" where
  "truncateForAI text maxLength =
     (if length text > maxLength then take maxLength text @ ''...'' else text)"

definition estimateTokens :: "string \<Rightarrow> int" where
  "estimateTokens text = int ((length text + 3) div 4)"

definition getModelForTask :: "string \<Rightarrow> string" where
  "getModelForTask task =
     (if task = ''sentiment'' then ''@cf/meta/llama-3.1-8b-instruct''
      else if task = ''summary'' then ''@cf/meta/llama-3.1-8b-instruct''
      else ''@cf/meta/llama-3.1-8b-instruct'')"

definition insightsTTL :: int where "insightsTTL = 600"
definition visualizationTTL :: int where "visualizationTTL = 600"

section \<open>The seed dataset\<close>

text \<open>
  The records \<open>mockFeedback\<close> of \<open>aggregateAllFeedback\<close>, used when the store gives no
  record.
\<close>

definition mock_github_001 :: FeedbackItem where
  \<open>mock_github_001 =
     \<lparr>id_field = ''github_001'',
      source_type = ''github'',
      source_id = ''issues/456'',
      title = ''Docker container fails to start on ARM64 architecture'',
      content = ''When trying to run PlexNet in a Docker container on ARM64 systems, the container fails to start with exec format error. This is blocking deployment on modern Apple Silicon Macs and ARM-based servers.'',
      author = ''dev-arm64-user'',
      created_at = 1732540800000,
      metadata = \<lparr>labels = Some [''bug'', ''docker'', ''arm64'', ''critical''], priority = None, state = None,
                  other = [(''comments_count'', JLiteral ''8'')]\<rparr>\<rparr>\<close>

definition mock_github_002 :: FeedbackItem where
  \<open>mock_github_002 =
     \<lparr>id_field = ''github_002'',
      source_type = ''github'',
      source_id = ''issues/457'',
      title = ''Feature request: Prometheus metrics export'',
      content = ''Add native Prometheus metrics export capability for integration with existing monitoring stacks. Need /metrics endpoint with proper exposition format and configurable collection intervals.'',
      author = ''k8s-monitoring'',
      created_at = 1732639500000,
      metadata = \<lparr>labels = Some [''enhancement'', ''prometheus'', ''kubernetes''], priority = None, state = None,
                  other = [(''comments_count'', JLiteral ''12'')]\<rparr>\<rparr>\<close>

definition mock_github_003 :: FeedbackItem where
  \<open>mock_github_003 =
     \<lparr>id_field = ''github_003'',
      source_type = ''github'',
      source_id = ''issues/458'',
      title = ''High CPU usage when monitoring large networks (>1000 devices)'',
      content = ''Server process consumes excessive CPU resources when monitoring networks with more than 1000 devices. Performance degrades significantly with SNMP polling becoming slow and unreliable.'',
      author = ''enterprise-user'',
      created_at = 1732705800000,
      metadata = \<lparr>labels = Some [''performance'', ''scalability'', ''snmp''], priority = None, state = None,
                  other = [(''comments_count'', JLiteral ''6'')]\<rparr>\<rparr>\<close>

definition mock_github_004 :: FeedbackItem where
  \<open>mock_github_004 =
     \<lparr>id_field = ''github_004'',
      source_type = ''github'',
      source_id = ''pull/234'',
      title = ''Add IPv6 support for network discovery'',
      content = ''Implement comprehensive IPv6 support including ICMPv6 neighbor discovery, IPv6 subnet scanning, and dual-stack device detection. Closes IPv6 compatibility issues.'',
      author = ''ipv6-contributor'',
      created_at = 1732807800000,
      metadata = \<lparr>labels = Some [''enhancement'', ''ipv6'', ''network-discovery''], priority = None, state = None,
                  other = []\<rparr>\<rparr>\<close>

definition mock_github_005 :: FeedbackItem where
  \<open>mock_github_005 =
     \<lparr>id_field = ''github_005'',
      source_type = ''github'',
      source_id = ''issues/459'',
      title = ''Security vulnerability: SQL injection in device search API'',
      content = ''Critical SQL injection vulnerability in /api/devices/search endpoint. Query parameters are not properly sanitized before SQL execution. Affects all versions prior to 2.3.2.'',
      author = ''security-researcher'',
      created_at = 1732867200000,
      metadata = \<lparr>labels = Some [''security'', ''vulnerability'', ''sql-injection'', ''critical''], priority = None, state = None,
                  other = []\<rparr>\<rparr>\<close>

definition mock_slack_001 :: FeedbackItem where
  \<open>mock_slack_001 =
     \<lparr>id_field = ''slack_001'',
      source_type = ''slack'',
      source_id = ''C1234567890_1643723400.001'',
      title = ''Customer reporting dashboard login issues'',
      content = ''@support-team We just got a call from a customer at MegaCorp reporting 'Invalid token' errors when logging into the dashboard after the latest update. They're using SSO with Azure AD.'',
      author = ''customer-success'',
      created_at = 1733045400000,
      metadata = \<lparr>labels = None, priority = None, state = None,
                  other = [(''channel'', JString ''support''), (''replies'', JLiteral ''2'')]\<rparr>\<rparr>\<close>

definition mock_slack_002 :: FeedbackItem where
  \<open>mock_slack_002 =
     \<lparr>id_field = ''slack_002'',
      source_type = ''slack'',
      source_id = ''C2345678901_1643724000.001'',
      title = ''New feature idea: Network topology visualization'',
      content = ''@product-team What if we added an interactive network topology map showing devices, connections, and traffic flows in real-time? Could help with troubleshooting connectivity issues.'',
      author = ''network-engineer'',
      created_at = 1733049900000,
      metadata = \<lparr>labels = None, priority = None, state = None,
                  other = [(''channel'', JString ''product-feedback''), (''replies'', JLiteral ''3'')]\<rparr>\<rparr>\<close>

definition mock_slack_003 :: FeedbackItem where
  \<open>mock_slack_003 =
     \<lparr>id_field = ''slack_003'',
      source_type = ''slack'',
      source_id = ''C3456789012_1643725000.001'',
      title = ''Performance issue with large network scans'',
      content = ''@engineering-team Network scans are taking 15+ minutes for networks with 500+ devices. Customers are complaining about slow discovery times. Need optimization for large-scale deployments.'',
      author = ''field-engineer'',
      created_at = 1733052600000,
      metadata = \<lparr>labels = None, priority = None, state = None,
                  other = [(''channel'', JString ''engineering''), (''replies'', JLiteral ''5'')]\<rparr>\<rparr>\<close>

definition mock_jira_001 :: FeedbackItem where
  \<open>mock_jira_001 =
     \<lparr>id_field = ''jira_001'',
      source_type = ''jira'',
      source_id = ''NET-123'',
      title = ''Network monitoring performance degradation'',
      content = ''Users reporting slow response times when accessing network monitoring dashboard during peak hours. Memory usage spikes to 2-3GB during high load periods.'',
      author = ''network-team'',
      created_at = 1732788900000,
      metadata = \<lparr>labels = None, priority = Some ''high'', state = None,
                  other = [(''status'', JString ''open''), (''assignee'', JString ''backend-team'')]\<rparr>\<rparr>\<close>

definition mock_jira_002 :: FeedbackItem where
  \<open>mock_jira_002 =
     \<lparr>id_field = ''jira_002'',
      source_type = ''jira'',
      source_id = ''SEC-456'',
      title = ''Implement OAuth 2.0 authentication'',
      content = ''Replace basic authentication with OAuth 2.0 for improved security and integration capabilities with enterprise identity providers like Okta and Azure AD.'',
      author = ''security-team'',
      created_at = 1732976400000,
      metadata = \<lparr>labels = None, priority = Some ''medium'', state = None,
                  other = [(''status'', JString ''in-progress''), (''assignee'', JString ''auth-team'')]\<rparr>\<rparr>\<close>

definition mock_email_001 :: FeedbackItem where
  \<open>mock_email_001 =
     \<lparr>id_field = ''email_001'',
      source_type = ''email'',
      source_id = ''ticket_789'',
      title = ''Cannot access historical data after upgrade'',
      content = ''After upgrading to v2.3.0, users cannot access historical monitoring data from before the upgrade. Database migration issue suspected. Critical for compliance reporting.'',
      author = ''support@enterprise-customer.com'',
      created_at = 1733129100000,
      metadata = \<lparr>labels = None, priority = Some ''high'', state = None,
                  other = [(''category'', JString ''data-loss'')]\<rparr>\<rparr>\<close>

definition mock_bug_001 :: FeedbackItem where
  \<open>mock_bug_001 =
     \<lparr>id_field = ''bug_001'',
      source_type = ''bug-report'',
      source_id = ''BR-101'',
      title = ''Memory leak in SNMP polling process'',
      content = ''Memory usage continuously increases during SNMP polling operations. Process must be restarted every 24 hours to prevent system crashes. Affects reliability in production.'',
      author = ''qa-team'',
      created_at = 1733231700000,
      metadata = \<lparr>labels = None, priority = None, state = None,
                  other = [(''severity'', JString ''critical''), (''component'', JString ''snmp-poller'')]\<rparr>\<rparr>\<close>

definition mock_teams_001 :: FeedbackItem where
  \<open>mock_teams_001 =
     \<lparr>id_field = ''teams_001'',
      source_type = ''teams'',
      source_id = ''thread_abc123'',
      title = ''Integration with ServiceNow requested'',
      content = ''Customer is asking for bidirectional integration with ServiceNow for automated incident creation and resolution tracking. This would streamline IT operations workflows.'',
      author = ''sales-engineer'',
      created_at = 1733302800000,
      metadata = \<lparr>labels = None, priority = None, state = None,
                  other = [(''channel'', JString ''integrations''), (''urgent'', JLiteral ''false'')]\<rparr>\<rparr>\<close>

definition mock_form_001 :: FeedbackItem where
  \<open>mock_form_001 =
     \<lparr>id_field = ''form_001'',
      source_type = ''dashboard-form'',
      source_id = ''feedback_001'',
      title = ''Dashboard usability feedback'',
      content = ''The new dashboard layout is confusing. Users can't find the device list easily. Navigation needs improvement. The search functionality is also slow with large device counts.'',
      author = ''power-user'',
      created_at = 1733416200000,
      metadata = \<lparr>labels = None, priority = None, state = None,
                  other = [(''rating'', JLiteral ''2''), (''category'', JString ''usability'')]\<rparr>\<rparr>\<close>

definition mock_github_006 :: FeedbackItem where
  \<open>mock_github_006 =
     \<lparr>id_field = ''github_006'',
      source_type = ''github'',
      source_id = ''issues/460'',
      title = ''Add support for NetFlow v9 export'',
      content = ''Implement NetFlow v9 export capability for integration with network traffic analysis tools like SolarWinds and PRTG. This is a common enterprise requirement.'',
      author = ''netflow-user'',
      created_at = 1733479200000,
      metadata = \<lparr>labels = Some [''enhancement'', ''netflow'', ''export''], priority = None, state = None,
                  other = []\<rparr>\<rparr>\<close>

definition mock_slack_004 :: FeedbackItem where
  \<open>mock_slack_004 =
     \<lparr>id_field = ''slack_004'',
      source_type = ''slack'',
      source_id = ''C4567890123_1643726000.001'',
      title = ''Mobile app feature request'',
      content = ''@product-team Can we get a mobile app for on-the-go network monitoring? Critical alerts and basic device status would be very useful for network admins.'',
      author = ''mobile-user'',
      created_at = 1733494500000,
      metadata = \<lparr>labels = None, priority = None, state = None,
                  other = [(''channel'', JString ''product-feedback''), (''replies'', JLiteral ''7'')]\<rparr>\<rparr>\<close>

definition mockFeedback :: "FeedbackItem list" where
  "mockFeedback =
     [mock_github_001,
      mock_github_002,
      mock_github_003,
      mock_github_004,
      mock_github_005,
      mock_slack_001,
      mock_slack_002,
      mock_slack_003,
      mock_jira_001,
      mock_jira_002,
      mock_email_001,
      mock_bug_001,
      mock_teams_001,
      mock_form_001,
      mock_github_006,
      mock_slack_004]"

section \<open>Result objects\<close>

text \<open>
  \<open>dateRange\<close> is the text \<open>"<day of the first date> to <day of the last date>"\<close> or
  \<open>"No data"\<close>; the model keeps the two instants instead of their ISO rendering.
\<close>

datatype date_range = NoData | FromTo int int

record FeedbackSummary =
  totalItems :: nat
  sources :: "string list"
  dateRange :: date_range
  topCategories :: "string list"
  averageSentiment :: string
  criticalIssues :: nat
  featureRequests :: nat

text \<open>
  The value of \<open>sentimentAnalysis\<close>: the object returned when the quota check denies the
  request (\<open>{overall: 'neutral', trends: []}\<close>), the default object (\<open>overall: 'neutral'\<close>,
  \<open>urgency_level: 'medium'\<close>, empty \<open>key_concerns\<close> and \<open>positive_signals\<close>), or the value
  that \<open>JSON.parse\<close> made of the text answered by the AI gateway.  Of a parsed value the
  code reads whether it is \<open>null\<close>, and its fields \<open>overall\<close> and \<open>urgency_level\<close>
  (\<open>None\<close> when absent).
\<close>

datatype parsed_value = NullValue | ObjectValue "string option" "string option"

datatype json_view = ParseFails | Parses parsed_value

datatype sentiment = SentimentDenied | SentimentDefault | SentimentParsed string parsed_value

record category =
  cat_name :: string
  cat_priority :: string
  cat_count :: nat
  cat_items :: "string list"
  latestUpdate :: int

record priority_matrix =
  urgent :: "category list"
  high :: "category list"
  medium :: "category list"
  low :: "category list"

record journey_stage =
  stage :: string
  feedbackCount :: nat
  satisfaction :: string

record feature_adoption =
  feature :: string
  mentions :: nat
  feature_sentiment :: string

record user_journeys =
  journeyStages :: "journey_stage list"
  painPoints :: "string list"
  featureAdoption :: "feature_adoption list"

record FeedbackInsights =
  criticalIssues_list :: "string list"
  trendingTopics :: "string list"
  recommendations :: "string list"
  priorityActions :: "string list"
  sentimentAnalysis :: sentiment
  priorityMatrix :: priority_matrix
  userJourneyInsights :: user_journeys

datatype layer_status = healthy | warning | critical

record NetworkLayer =
  name :: string
  status :: layer_status
  issueCount :: nat
  description :: string

text \<open>
  The text \<open>visualization\<close> ends with the locale rendering of the current time; the model
  keeps the text as a list of segments, with the time left as an instant.
\<close>

datatype segment = Text string | LocalTime int

record NetworkVisualization =
  layerStatus :: "NetworkLayer list"
  criticalLayers :: "string list"
  warningLayers :: "string list"
  issueDistribution :: string
  visualization :: "segment list"
  lastUpdated :: int
  healthScore :: int

section \<open>The environment\<close>

text \<open>
  The cache gateway \<open>env.CACHE\<close>: a key-value store whose entries expire.  An entry holds
  the JSON text of a result object; the model keeps the object itself
  (\<open>JSON.parse (JSON.stringify x)\<close> is \<open>x\<close> for the result objects).  Each operation can
  fail, which raises an exception in the caller.
\<close>

datatype json_doc =
    SummaryDoc FeedbackSummary
  | InsightsDoc FeedbackInsights
  | VisualizationDoc NetworkVisualization

record kv_entry =
  payload :: json_doc
  expires_at :: int

record kv =
  store :: "string \<rightharpoonup> kv_entry"
  get_fails :: bool
  put_fails :: bool
  delete_fails :: bool

definition kv_get :: "int \<Rightarrow> string \<Rightarrow> kv \<Rightarrow> error + json_doc option" where
  "kv_get now key c =
     (if get_fails c then Inl CacheError
      else case store c key of
             Some e \<Rightarrow> if now < expires_at e then Inr (Some (payload e)) else Inr None
           | None \<Rightarrow> Inr None)"

definition kv_put :: "int \<Rightarrow> string \<Rightarrow> json_doc \<Rightarrow> int \<Rightarrow> kv \<Rightarrow> (error + unit) \<times> kv" where
  "kv_put now key doc ttl c =
     (if put_fails c then (Inl CacheError, c)
      else (Inr (), c\<lparr>store := (store c)(key \<mapsto> \<lparr>payload = doc, expires_at = now + ttl * 1000\<rparr>)\<rparr>))"

definition kv_delete :: "string \<Rightarrow> kv \<Rightarrow> (error + unit) \<times> kv" where
  "kv_delete key c =
     (if delete_fails c then (Inl CacheError, c)
      else (Inr (), c\<lparr>store := (store c)(key := None)\<rparr>))"

text \<open>
  The data gateway \<open>env.FEEDBACK_DB\<close>: the table \<open>feedback\<close> with primary key \<open>id\<close> and a
  nullable text column \<open>metadata\<close>.  A read can fail; \<open>writes_left = Some k\<close> says that
  the next \<open>k\<close> writes succeed and the one after them fails.  The column \<open>processed_at\<close>,
  which no query of the code reads, is left out.
\<close>

type_synonym feedback_row = "metadata_text option item_of"

record d1 =
  rows :: "feedback_row list"
  read_fails :: bool
  writes_left :: "nat option"

text \<open>\<open>INSERT OR REPLACE\<close>: a row with the same \<open>id\<close> is replaced.\<close>

definition insert_or_replace :: "feedback_row \<Rightarrow> d1 \<Rightarrow> (error + unit) \<times> d1" where
  "insert_or_replace r db =
     (case writes_left db of
        Some 0 \<Rightarrow> (Inl DatabaseError, db)
      | Some (Suc k) \<Rightarrow>
          (Inr (), db\<lparr>rows := filter (\<lambda>x. id_field x \<noteq> id_field r) (rows db) @ [r],
                      writes_left := Some k\<rparr>)
      | None \<Rightarrow>
          (Inr (), db\<lparr>rows := filter (\<lambda>x. id_field x \<noteq> id_field r) (rows db) @ [r]\<rparr>))"

text \<open>\<open>ORDER BY created_at DESC\<close>, rows of equal time in the order of the table.\<close>

definition newest_first :: "'m item_of \<Rightarrow> 'm item_of \<Rightarrow> int" where
  "newest_first a b = created_at b - created_at a"

definition select_all :: "d1 \<Rightarrow> error + feedback_row list" where
  "select_all db =
     (if read_fails db then Inl DatabaseError else Inr (sort_by newest_first (rows db)))"

text \<open>
  \<open>column LIKE '%needle%'\<close> of SQLite, which ignores the case of ASCII letters; on a
  \<open>NULL\<close> column the condition does not hold.
\<close>

definition like_contains :: "string \<Rightarrow> string \<Rightarrow> bool" where
  "like_contains text needle = includes_str (toLowerCase text) (toLowerCase needle)"

definition network_related :: "feedback_row \<Rightarrow> bool" where
  "network_related r \<longleftrightarrow>
     like_contains (content r) ''network'' \<or> like_contains (content r) ''connectivity'' \<or>
     like_contains (content r) ''interface'' \<or>
     (case metadata r of
        Some t \<Rightarrow> like_contains (text_of t) ''network'' \<or> like_contains (text_of t) ''interface''
      | None \<Rightarrow> False)"

definition select_network :: "d1 \<Rightarrow> error + feedback_row list" where
  "select_network db =
     (if read_fails db then Inl DatabaseError
      else Inr (sort_by newest_first (filter network_related (rows db))))"

text \<open>
  The AI gateway \<open>env.AI.run\<close>: the answer to the \<open>n\<close>-th call may depend on \<open>n\<close> and on the
  request.  The call raises an exception, or returns \<open>null\<close>, or returns an object whose
  field \<open>response\<close> is a text or is absent; with a text comes what \<open>JSON.parse\<close> makes of
  it.
\<close>

record ai_request =
  model :: string
  system_content :: string
  user_content :: string
  max_tokens :: nat

datatype ai_outcome = Throws | ReturnsNull | Returns "string option" json_view

text \<open>
  The world of a request: the bindings of \<open>env\<close> and the singleton \<open>FreeTierManager\<close>.
\<close>

record world =
  CACHE :: kv
  FEEDBACK_DB :: d1
  AI :: "nat \<Rightarrow> ai_request \<Rightarrow> ai_outcome"
  ai_calls :: nat
  usageCache :: usageCache

definition AI_run :: "ai_request \<Rightarrow> world \<Rightarrow> ai_outcome \<times> world" where
  "AI_run request w = (AI w (ai_calls w) request, w\<lparr>ai_calls := ai_calls w + 1\<rparr>)"

section \<open>Rule-based classifier: categories, journeys, priorities\<close>

text \<open>
  A \<open>Record<string, number>\<close> used as a tally is an association list in the order in which
  the keys were first written; \<open>bump\<close> is \<open>tally[key] = (tally[key] || 0) + 1\<close>.
\<close>

fun bump :: "string \<Rightarrow> (string \<times> nat) list \<Rightarrow> (string \<times> nat) list" where
  "bump key [] = [(key, 1)]"
| "bump key ((k, n) # rest) = (if k = key then (k, n + 1) # rest else (k, n) # bump key rest)"

definition by_count_desc :: "string \<times> nat \<Rightarrow> string \<times> nat \<Rightarrow> int" where
  "by_count_desc x y = int (snd y) - int (snd x)"

definition bump_if :: "bool \<Rightarrow> string \<Rightarrow> (string \<times> nat) list \<Rightarrow> (string \<times> nat) list" where
  "bump_if b key tally = (if b then bump key tally else tally)"

definition categorize_one :: "FeedbackItem \<Rightarrow> (string \<times> nat) list \<Rightarrow> (string \<times> nat) list" where
  "categorize_one f categories =
     (let categories1 = (case labels (metadata f) of
                           Some ls \<Rightarrow> fold bump ls categories
                         | None \<Rightarrow> categories);
          c = toLowerCase (content f);
          categories2 = bump_if (includes_str c ''docker'' \<or> includes_str c ''container'')
                          ''docker'' categories1;
          categories3 = bump_if (includes_str c ''performance'' \<or> includes_str c ''cpu''
                                 \<or> includes_str c ''memory'') ''performance'' categories2;
          categories4 = bump_if (includes_str c ''security'' \<or> includes_str c ''vulnerability'')
                          ''security'' categories3;
          categories5 = bump_if (includes_str c ''feature'' \<or> includes_str c ''enhancement'')
                          ''features'' categories4
      in bump_if (includes_str c ''network'' \<or> includes_str c ''connectivity'')
           ''network'' categories5)"

definition categorizeFeedback :: "FeedbackItem list \<Rightarrow> (string \<times> nat) list" where
  "categorizeFeedback feedback = sort_by by_count_desc (fold categorize_one feedback [])"

text \<open>\<open>identifyPainPoints\<close>\<close>

definition painPointPatterns :: "string list" where
  "painPointPatterns =
     [''slow'', ''crashing'', ''confusing'', ''broken'', ''missing'', ''inconsistent'',
      ''unreliable'', ''complex'', ''difficult'', ''frustrating'', ''blocking'', ''error'']"

definition pain_points_one :: "FeedbackItem \<Rightarrow> (string \<times> nat) list \<Rightarrow> (string \<times> nat) list" where
  "pain_points_one f tally0 =
     fold (\<lambda>pattern tally. bump_if (includes_str (toLowerCase (content f)) pattern) pattern tally)
       painPointPatterns tally0"

definition identifyPainPoints :: "FeedbackItem list \<Rightarrow> string list" where
  "identifyPainPoints feedback =
     map (\<lambda>(point, n). point @ '' ('' @ show_nat n @ '' mentions)'')
       (take 6 (sort_by by_count_desc (fold pain_points_one feedback [])))"

text \<open>\<open>calculateJourneySatisfaction\<close>\<close>

definition positiveWords :: "string list" where
  "positiveWords = [''great'', ''excellent'', ''love'', ''amazing'', ''perfect'', ''smooth'', ''easy'']"

definition negativeWords :: "string list" where
  "negativeWords =
     [''frustrating'', ''slow'', ''confusing'', ''broken'', ''terrible'', ''difficult'', ''complex'']"

definition content_has_any :: "string list \<Rightarrow> FeedbackItem \<Rightarrow> bool" where
  "content_has_any ws f = (\<exists>w \<in> set ws. includes_str (toLowerCase (content f)) w)"

definition calculateJourneySatisfaction :: "FeedbackItem list \<Rightarrow> string" where
  "calculateJourneySatisfaction feedback =
     (let positive = length (filter (content_has_any positiveWords) feedback);
          negative = length (filter (content_has_any negativeWords) feedback)
      in if positive > negative * 2 then ''high''
         else if negative > positive * 2 then ''low''
         else ''medium'')"

text \<open>\<open>calculateFeatureSentiment\<close> and \<open>analyzeFeatureAdoption\<close>\<close>

definition calculateFeatureSentiment :: "FeedbackItem list \<Rightarrow> string \<Rightarrow> string" where
  "calculateFeatureSentiment feedback feat =
     (let featureFeedback = filter (\<lambda>f. includes_str (toLowerCase (content f)) feat) feedback;
          positive = length (filter (content_has_any [''love'', ''great'', ''excellent'', ''perfect''])
                       featureFeedback);
          negative = length (filter (content_has_any [''broken'', ''slow'', ''confusing'', ''missing''])
                       featureFeedback)
      in if positive > negative then ''positive''
         else if negative > positive then ''negative''
         else ''neutral'')"

definition features :: "string list" where
  "features =
     [''prometheus'', ''snmp'', ''dashboard'', ''api'', ''alerting'', ''reporting'', ''docker'',
      ''kubernetes'']"

definition by_mentions_desc :: "feature_adoption \<Rightarrow> feature_adoption \<Rightarrow> int" where
  "by_mentions_desc a b = int (mentions b) - int (mentions a)"

definition analyzeFeatureAdoption :: "FeedbackItem list \<Rightarrow> feature_adoption list" where
  "analyzeFeatureAdoption feedback =
     sort_by by_mentions_desc
       (filter (\<lambda>a. mentions a > 0)
          (map (\<lambda>feat.
                  \<lparr>feature = feat,
                   mentions = length (filter (\<lambda>f. includes_str (toLowerCase (content f)) feat)
                                feedback),
                   feature_sentiment = calculateFeatureSentiment feedback feat\<rparr>)
             features))"

text \<open>\<open>analyzeUserJourneys\<close>\<close>

definition journeyMap :: "FeedbackItem list \<Rightarrow> (string \<times> FeedbackItem list) list" where
  "journeyMap feedback =
     [(''First Time Setup'', filter (content_has_any [''setup'', ''install'', ''deploy'']) feedback),
      (''Daily Usage'', filter (content_has_any [''dashboard'', ''monitoring'', ''daily'']) feedback),
      (''Troubleshooting'', filter (content_has_any [''error'', ''issue'', ''problem'']) feedback),
      (''Advanced Features'',
         filter (content_has_any [''prometheus'', ''integration'', ''api'']) feedback)]"

definition analyzeUserJourneys :: "FeedbackItem list \<Rightarrow> user_journeys" where
  "analyzeUserJourneys feedback =
     \<lparr>journeyStages =
        map (\<lambda>(s, items). \<lparr>stage = s, feedbackCount = length items,
                            satisfaction = calculateJourneySatisfaction items\<rparr>)
          (journeyMap feedback),
      painPoints = identifyPainPoints feedback,
      featureAdoption = analyzeFeatureAdoption feedback\<rparr>"

text \<open>
  \<open>addToCategory\<close> and \<open>categorizeFeedbackAdvanced\<close>: the categories are kept in the order
  in which they were created, the order of \<open>Object.values\<close>.
\<close>

fun addToCategory :: "category list \<Rightarrow> string \<Rightarrow> FeedbackItem \<Rightarrow> string \<Rightarrow> category list" where
  "addToCategory [] cname f prio =
     [\<lparr>cat_name = cname, cat_priority = prio, cat_count = 1, cat_items = [title f],
       latestUpdate = created_at f\<rparr>]"
| "addToCategory (c # cs) cname f prio =
     (if cat_name c = cname
      then c\<lparr>cat_count := cat_count c + 1, cat_items := cat_items c @ [title f],
             latestUpdate := (if created_at f > latestUpdate c then created_at f
                              else latestUpdate c)\<rparr> # cs
      else c # addToCategory cs cname f prio)"

definition add_if :: "bool \<Rightarrow> string \<Rightarrow> FeedbackItem \<Rightarrow> string \<Rightarrow> category list \<Rightarrow> category list" where
  "add_if b cname f prio categories = (if b then addToCategory categories cname f prio else categories)"

definition categorize_advanced_one :: "FeedbackItem \<Rightarrow> category list \<Rightarrow> category list" where
  "categorize_advanced_one f categories =
     (let c = toLowerCase (content f);
          lbls = labels_or_empty f;
          categories1 = add_if (includes_str c ''security'' \<or> includes_str c ''vulnerability''
                                \<or> ''security'' \<in> set lbls) ''security'' f ''urgent'' categories;
          categories2 = add_if (includes_str c ''performance'' \<or> includes_str c ''slow''
                                \<or> includes_str c ''cpu'' \<or> ''performance'' \<in> set lbls)
                          ''performance'' f ''high'' categories1;
          categories3 = add_if (includes_str c ''docker'' \<or> includes_str c ''arm64''
                                \<or> includes_str c ''ipv6'' \<or> ''compatibility'' \<in> set lbls)
                          ''compatibility'' f ''medium'' categories2;
          categories4 = add_if (includes_str c ''feature'' \<or> includes_str c ''enhancement''
                                \<or> ''enhancement'' \<in> set lbls) ''features'' f ''medium'' categories3
      in add_if (includes_str c ''usability'' \<or> includes_str c ''ui''
                 \<or> includes_str c ''dashboard'' \<or> ''usability'' \<in> set lbls)
           ''usability'' f ''low'' categories4)"

definition categorizeFeedbackAdvanced :: "FeedbackItem list \<Rightarrow> category list" where
  "categorizeFeedbackAdvanced feedback = fold categorize_advanced_one feedback []"

definition generatePriorityMatrix :: "FeedbackItem list \<Rightarrow> priority_matrix" where
  "generatePriorityMatrix feedback =
     (let categories = categorizeFeedbackAdvanced feedback
      in \<lparr>urgent = filter (\<lambda>c. cat_priority c = ''urgent'') categories,
          high = filter (\<lambda>c. cat_priority c = ''high'') categories,
          medium = filter (\<lambda>c. cat_priority c = ''medium'') categories,
          low = filter (\<lambda>c. cat_priority c = ''low'') categories\<rparr>)"

section \<open>Aggregator\<close>

text \<open>
  The operations below run at a time \<open>now\<close> in a world and return their result with the
  world they leave.  An operation that can raise an exception returns a sum, \<open>Inl\<close> for
  the exception.
\<close>

definition label_includes :: "FeedbackItem \<Rightarrow> string \<Rightarrow> bool" where
  "label_includes f l = (case labels (metadata f) of Some ls \<Rightarrow> l \<in> set ls | None \<Rightarrow> False)"

definition content_includes :: "FeedbackItem \<Rightarrow> string \<Rightarrow> bool" where
  "content_includes f s = includes_str (toLowerCase (content f)) s"

text \<open>\<open>processFeedbackDirectly\<close>\<close>

definition to_row :: "FeedbackItem \<Rightarrow> feedback_row" where
  "to_row item =
     \<lparr>id_field = id_field item, source_type = source_type item, source_id = source_id item,
      title = title item, content = content item, author = author item,
      created_at = created_at item, metadata = Some (JsonText (metadata item))\<rparr>"

fun insert_batch :: "FeedbackItem list \<Rightarrow> d1 \<Rightarrow> (error + unit) \<times> d1" where
  "insert_batch [] db = (Inr (), db)"
| "insert_batch (item # rest) db =
     (case insert_or_replace (to_row item) db of
        (Inl e, db') \<Rightarrow> (Inl e, db')
      | (Inr u, db') \<Rightarrow> insert_batch rest db')"

definition processFeedbackDirectly :: "FeedbackItem list \<Rightarrow> world \<Rightarrow> (error + unit) \<times> world" where
  "processFeedbackDirectly feedbackBatch w =
     (case insert_batch feedbackBatch (FEEDBACK_DB w) of
        (Inl e, db) \<Rightarrow> (Inl e, w\<lparr>FEEDBACK_DB := db\<rparr>)
      | (Inr u, db) \<Rightarrow>
          (case kv_delete ''feedback:summary'' (CACHE w) of
             (Inl e, c1) \<Rightarrow> (Inl e, w\<lparr>FEEDBACK_DB := db, CACHE := c1\<rparr>)
           | (Inr u1, c1) \<Rightarrow>
               (case kv_delete ''feedback:insights'' c1 of
                  (Inl e, c2) \<Rightarrow> (Inl e, w\<lparr>FEEDBACK_DB := db, CACHE := c2\<rparr>)
                | (Inr u2, c2) \<Rightarrow> (Inr (), w\<lparr>FEEDBACK_DB := db, CACHE := c2\<rparr>))))"

text \<open>\<open>getFeedbackFromDB\<close>: any exception gives the empty list.\<close>

definition parse_column :: "metadata_text option \<Rightarrow> error + metadata" where
  "parse_column col =
     (case col of
        None \<Rightarrow> Inr empty_metadata
      | Some t \<Rightarrow> if text_of t = [] then Inr empty_metadata else JSON_parse t)"

definition row_to_item :: "feedback_row \<Rightarrow> error + FeedbackItem" where
  "row_to_item row =
     (case parse_column (metadata row) of
        Inl e \<Rightarrow> Inl e
      | Inr m \<Rightarrow>
          Inr \<lparr>id_field = id_field row, source_type = source_type row,
               source_id = source_id row, title = title row, content = content row,
               author = author row, created_at = created_at row, metadata = m\<rparr>)"

fun rows_to_items :: "feedback_row list \<Rightarrow> error + FeedbackItem list" where
  "rows_to_items [] = Inr []"
| "rows_to_items (row # rest) =
     (case row_to_item row of
        Inl e \<Rightarrow> Inl e
      | Inr item \<Rightarrow> (case rows_to_items rest of Inl e \<Rightarrow> Inl e | Inr items \<Rightarrow> Inr (item # items)))"

definition getFeedbackFromDB :: "world \<Rightarrow> FeedbackItem list" where
  "getFeedbackFromDB w =
     (case select_all (FEEDBACK_DB w) of
        Inl e \<Rightarrow> []
      | Inr results \<Rightarrow> (case rows_to_items results of Inl e \<Rightarrow> [] | Inr items \<Rightarrow> items))"

text \<open>
  \<open>aggregateAllFeedback\<close>: the records of the store, or else the seed dataset, which is
  then written to the store; an exception of that write is caught.
\<close>

definition aggregateAllFeedback :: "world \<Rightarrow> FeedbackItem list \<times> world" where
  "aggregateAllFeedback w =
     (let dbFeedback = getFeedbackFromDB w
      in if length dbFeedback > 0 then (dbFeedback, w)
         else if length mockFeedback > 0
           then (mockFeedback, snd (processFeedbackDirectly mockFeedback w))
           else (mockFeedback, w))"

text \<open>\<open>analyzeSentiment\<close>\<close>

definition sentiment_label :: "string option \<Rightarrow> string" where
  "sentiment_label response =
     (case response of
        None \<Rightarrow> ''Neutral''
      | Some r \<Rightarrow>
          if includes_str (toLowerCase r) ''positive'' then ''Positive''
          else if includes_str (toLowerCase r) ''negative'' then ''Negative''
          else ''Neutral'')"

definition record_tokens :: "int \<Rightarrow> int \<Rightarrow> world \<Rightarrow> world" where
  "record_tokens now tokens w = w\<lparr>usageCache := recordAITokensUsed now tokens (usageCache w)\<rparr>"

definition check_quota :: "int \<Rightarrow> int \<Rightarrow> world \<Rightarrow> bool \<times> world" where
  "check_quota now estimatedTokens w =
     (case canMakeAIRequest now estimatedTokens (usageCache w) of
        (allowed, cache) \<Rightarrow> (allowed, w\<lparr>usageCache := cache\<rparr>))"

definition analyzeSentiment :: "int \<Rightarrow> FeedbackItem list \<Rightarrow> world \<Rightarrow> string \<times> world" where
  "analyzeSentiment now feedback w =
     (let sample = take 5 feedback;
          titles = join ''. '' (map title sample);
          truncatedTitles = truncateForAI titles 1000;
          estimatedTokens = estimateTokens truncatedTitles
      in case check_quota now estimatedTokens w of
           (False, w1) \<Rightarrow> (''Neutral'', w1)
         | (True, w1) \<Rightarrow>
             (case AI_run
                     \<lparr>model = getModelForTask ''sentiment'',
                      system_content = ''Analyze the sentiment of these feedback titles. Return only: positive, negative, or neutral.'',
                      user_content = ''Analyze sentiment: '' @ truncatedTitles,
                      max_tokens = 10\<rparr> w1 of
                (Throws, w2) \<Rightarrow> (''Neutral'', w2)
              | (ReturnsNull, w2) \<Rightarrow> (''Neutral'', record_tokens now estimatedTokens w2)
              | (Returns response view, w2) \<Rightarrow>
                  (sentiment_label response, record_tokens now estimatedTokens w2)))"

text \<open>\<open>analyzeFeedbackSummary\<close>\<close>

definition ascending :: "int \<Rightarrow> int \<Rightarrow> int" where
  "ascending a b = a - b"

definition is_critical_issue :: "FeedbackItem \<Rightarrow> bool" where
  "is_critical_issue f \<longleftrightarrow>
     label_includes f ''security'' \<or> label_includes f ''critical'' \<or>
     content_includes f ''vulnerability'' \<or> content_includes f ''crash''"

definition is_feature_request :: "FeedbackItem \<Rightarrow> bool" where
  "is_feature_request f \<longleftrightarrow>
     (source_type f = ''github'' \<and> state (metadata f) = Some ''open'' \<and>
        label_includes f ''enhancement'') \<or>
     content_includes f ''feature request'' \<or> content_includes f ''would be great''"

definition analyzeFeedbackSummary ::
  "int \<Rightarrow> FeedbackItem list \<Rightarrow> world \<Rightarrow> FeedbackSummary \<times> world" where
  "analyzeFeedbackSummary now feedback w =
     (let srcs = unique (map source_type feedback);
          dates = sort_by ascending (map created_at feedback);
          range = (if length dates > 0 then FromTo (hd dates) (last dates) else NoData);
          categories = categorizeFeedback feedback
      in case analyzeSentiment now feedback w of
           (sentiment, w1) \<Rightarrow>
             (\<lparr>totalItems = length feedback,
               sources = srcs,
               dateRange = range,
               topCategories = map (\<lambda>(cat, n). cat @ '' ('' @ show_nat n @ '')'') (take 5 categories),
               averageSentiment = sentiment,
               criticalIssues = length (filter is_critical_issue feedback),
               featureRequests = length (filter is_feature_request feedback)\<rparr>, w1))"


section \<open>Insights\<close>

text \<open>\<open>analyzeSentimentTrends\<close>\<close>

definition analyzeSentimentTrends :: "int \<Rightarrow> FeedbackItem list \<Rightarrow> world \<Rightarrow> sentiment \<times> world" where
  "analyzeSentimentTrends now feedback w =
     (case check_quota now 2000 w of
        (False, w1) \<Rightarrow> (SentimentDenied, w1)
      | (True, w1) \<Rightarrow>
          (let recentFeedback = slice_last 12 feedback;
               contentSample = join ''; '' (map (\<lambda>f. source_type f @ '': '' @ title f) recentFeedback)
           in case AI_run
                     \<lparr>model = ''@cf/meta/llama-3.1-8b-instruct'',
                      system_content = ''Analyze sentiment trends in network infrastructure feedback. Return JSON with: overall_sentiment (positive/negative/neutral), key_concerns (array), positive_signals (array), urgency_level (high/medium/low).'',
                      user_content = ''Analyze sentiment in: '' @ contentSample,
                      max_tokens = 150\<rparr> w1 of
                (Throws, w2) \<Rightarrow> (SentimentDefault, w2)
              | (ReturnsNull, w2) \<Rightarrow> (SentimentDefault, record_tokens now 2000 w2)
              | (Returns response view, w2) \<Rightarrow>
                  ((case response of
                      None \<Rightarrow> SentimentDefault
                    | Some r \<Rightarrow>
                        if r = [] then SentimentDefault
                        else (case view of
                                ParseFails \<Rightarrow> SentimentDefault
                              | Parses v \<Rightarrow> SentimentParsed r v)),
                   record_tokens now 2000 w2)))"

text \<open>\<open>extractAdvancedTrendingTopics\<close>\<close>

definition defaultTopics :: "string list" where
  "defaultTopics =
     [''Performance & Scalability Issues'', ''Security Vulnerabilities'',
      ''Multi-Platform Compatibility'', ''Integration Capabilities'',
      ''User Experience Improvements'']"

definition is_bullet :: "string \<Rightarrow> bool" where
  "is_bullet line \<longleftrightarrow> startsWith (trim line) [CHR 0xE2, CHR 0x80, CHR 0xA2] \<or> startsWith (trim line) ''-''"

definition extractAdvancedTrendingTopics ::
  "int \<Rightarrow> FeedbackItem list \<Rightarrow> world \<Rightarrow> string list \<times> world" where
  "extractAdvancedTrendingTopics now feedback w =
     (let recentFeedback = slice_last 15 feedback;
          text = join '' | '' (map (\<lambda>f. source_type f @ '': '' @ title f @ '' - '' @ take 100 (content f))
                                recentFeedback);
          truncatedContent = truncateForAI text 1200;
          estimatedTokens = estimateTokens truncatedContent
      in case check_quota now estimatedTokens w of
           (False, w1) \<Rightarrow> (defaultTopics, w1)
         | (True, w1) \<Rightarrow>
             (case AI_run
                     \<lparr>model = getModelForTask ''summary'',
                      system_content = ''Extract 5 key trending topics from network infrastructure feedback. Focus on themes, patterns, and emerging issues. Return as concise bullet points.'',
                      user_content = ''Extract trending topics from this feedback data: '' @ truncatedContent,
                      max_tokens = 100\<rparr> w1 of
                (Throws, w2) \<Rightarrow> (defaultTopics, w2)
              | (ReturnsNull, w2) \<Rightarrow> (defaultTopics, record_tokens now estimatedTokens w2)
              | (Returns response view, w2) \<Rightarrow>
                  (let r = (case response of Some t \<Rightarrow> t | None \<Rightarrow> []);
                       topics = take 5 (filter is_bullet (split_lines r))
                   in (if length topics > 0 then topics else defaultTopics,
                       record_tokens now estimatedTokens w2))))"

text \<open>
  \<open>generateAdvancedRecommendations\<close>: reading \<open>sentimentAnalysis.overall\<close> raises a
  \<open>TypeError\<close> when the value is \<open>null\<close>.
\<close>

definition defaultRecommendations :: "string list" where
  "defaultRecommendations =
     [''Address critical security vulnerabilities immediately'',
      ''Implement performance optimizations for large-scale deployments'',
      ''Add comprehensive multi-platform support (ARM64, IPv6)'',
      ''Enhance user experience with improved dashboard usability'',
      ''Develop native integrations with popular monitoring platforms'']"

definition or_else :: "string option \<Rightarrow> string \<Rightarrow> string" where
  "or_else v d = (case v of Some s \<Rightarrow> if s = [] then d else s | None \<Rightarrow> d)"

fun sentiment_context :: "sentiment \<Rightarrow> error + string" where
  "sentiment_context SentimentDenied = Inr ''Sentiment: neutral, Urgency: medium''"
| "sentiment_context SentimentDefault = Inr ''Sentiment: neutral, Urgency: medium''"
| "sentiment_context (SentimentParsed r NullValue) = Inl TypeError"
| "sentiment_context (SentimentParsed r (ObjectValue ov ul)) =
     Inr (''Sentiment: '' @ or_else ov ''neutral'' @ '', Urgency: '' @ or_else ul ''medium'')"

definition generateAdvancedRecommendations ::
  "int \<Rightarrow> FeedbackItem list \<Rightarrow> sentiment \<Rightarrow> world \<Rightarrow> (error + string list) \<times> world" where
  "generateAdvancedRecommendations now feedback sentiment w =
     (let feedbackSummary =
            join ''; '' (map (\<lambda>f. source_type f @ '': '' @ title f @ '' (''
                                    @ or_else (priority (metadata f)) ''medium'' @ '')'')
                           (take 10 feedback))
      in case sentiment_context sentiment of
           Inl e \<Rightarrow> (Inl e, w)
         | Inr context \<Rightarrow>
             (let combinedInput = context @ ''. Feedback: '' @ feedbackSummary;
                  truncatedInput = truncateForAI combinedInput 800;
                  estimatedTokens = estimateTokens truncatedInput
              in case check_quota now estimatedTokens w of
                   (False, w1) \<Rightarrow> (Inr defaultRecommendations, w1)
                 | (True, w1) \<Rightarrow>
                     (case AI_run
                             \<lparr>model = getModelForTask ''summary'',
                              system_content = ''Generate 5 strategic recommendations for network infrastructure improvements based on user feedback, sentiment, and priority analysis. Focus on actionable, high-impact changes. Return as concise bullet points.'',
                              user_content = ''Generate strategic recommendations from: '' @ truncatedInput,
                              max_tokens = 120\<rparr> w1 of
                        (Throws, w2) \<Rightarrow> (Inr defaultRecommendations, w2)
                      | (ReturnsNull, w2) \<Rightarrow>
                          (Inr defaultRecommendations, record_tokens now estimatedTokens w2)
                      | (Returns response view, w2) \<Rightarrow>
                          (let r = (case response of Some t \<Rightarrow> t | None \<Rightarrow> []);
                               recs = take 5 (filter is_bullet (split_lines r))
                           in (Inr (if length recs \<ge> 3 then recs else defaultRecommendations),
                               record_tokens now estimatedTokens w2)))))"

text \<open>\<open>generateDynamicPriorityActions\<close>: the list \<open>actions\<close> grows by four \<open>if\<close> statements.\<close>

definition push_if :: "bool \<Rightarrow> string list \<Rightarrow> string list \<Rightarrow> string list" where
  "push_if b new actions = (if b then actions @ new else actions)"

definition generateDynamicPriorityActions :: "FeedbackItem list \<Rightarrow> priority_matrix \<Rightarrow> string list" where
  \<open>generateDynamicPriorityActions feedback matrix =
     (let urgentCount = length (urgent matrix);
          highCount = length (high matrix);
          securityIssues = length (filter (\<lambda>f. content_includes f ''security''
                                              \<or> content_includes f ''vulnerability'') feedback);
          actions1 = push_if (securityIssues > 0)
                       [[CHR 0xF0, CHR 0x9F, CHR 0x9A, CHR 0xA8] @ '' CRITICAL: Address SQL injection and security vulnerabilities immediately'',
                        [CHR 0xF0, CHR 0x9F, CHR 0x94, CHR 0x92] @ '' Implement OAuth 2.0 authentication and authorization''] [];
          actions2 = push_if (highCount > 2)
                       [[CHR 0xE2, CHR 0x9A, CHR 0xA1] @ '' Optimize performance for large network monitoring (>1000 devices)'',
                        [CHR 0xF0, CHR 0x9F, CHR 0xA7, CHR 0xA0] @ '' Fix memory leaks in SNMP polling processes''] actions1;
          compatibilityIssues = length (filter (\<lambda>f. content_includes f ''docker''
                                                   \<or> content_includes f ''arm64''
                                                   \<or> content_includes f ''ipv6'') feedback);
          actions3 = push_if (compatibilityIssues > 1)
                       [[CHR 0xF0, CHR 0x9F, CHR 0x90, CHR 0xB3] @ '' Add ARM64 Docker container support'',
                        [CHR 0xF0, CHR 0x9F, CHR 0x8C, CHR 0x90] @ '' Implement IPv6 support for network discovery''] actions2;
          featureCount = length (filter (\<lambda>f. content_includes f ''prometheus''
                                            \<or> content_includes f ''integration'') feedback);
          actions4 = push_if (featureCount > 1)
                       [[CHR 0xF0, CHR 0x9F, CHR 0x93, CHR 0x8A] @ '' Add native Prometheus metrics export'',
                        [CHR 0xF0, CHR 0x9F, CHR 0x94, CHR 0x97] @ '' Develop ServiceNow bidirectional integration''] actions3;
          actions5 = push_if (length actions4 < 3)
                       [[CHR 0xF0, CHR 0x9F, CHR 0x93, CHR 0x88] @ '' Enhance dashboard usability and navigation'',
                        [CHR 0xF0, CHR 0x9F, CHR 0x93, CHR 0xB1] @ '' Develop mobile application for network monitoring'',
                        [CHR 0xF0, CHR 0x9F, CHR 0x94, CHR 0xA7] @ '' Implement NetFlow v9 export capabilities''] actions4
      in take 6 actions5)\<close>

text \<open>
  \<open>generateInsights\<close>: a stage that raises an exception is replaced by its default.  Only
  \<open>generateAdvancedRecommendations\<close> can raise one.
\<close>

definition fallbackRecommendations :: "string list" where
  "fallbackRecommendations =
     [''Address critical security vulnerabilities immediately'',
      ''Implement performance optimizations for large-scale deployments'',
      ''Add comprehensive multi-platform support (ARM64, IPv6)'']"

definition generateInsights :: "int \<Rightarrow> FeedbackItem list \<Rightarrow> world \<Rightarrow> FeedbackInsights \<times> world" where
  "generateInsights now feedback w =
     (let issues = extractCriticalIssues feedback
      in case analyzeSentimentTrends now feedback w of
           (sentiment, w1) \<Rightarrow>
             (let matrix = generatePriorityMatrix feedback;
                  journeys = analyzeUserJourneys feedback
              in case extractAdvancedTrendingTopics now feedback w1 of
                   (topics, w2) \<Rightarrow>
                     (case generateAdvancedRecommendations now feedback sentiment w2 of
                        (result, w3) \<Rightarrow>
                          (\<lparr>criticalIssues_list = issues,
                            trendingTopics = topics,
                            recommendations = (case result of
                                                 Inl e \<Rightarrow> fallbackRecommendations
                                               | Inr recs \<Rightarrow> recs),
                            priorityActions = generateDynamicPriorityActions feedback matrix,
                            sentimentAnalysis = sentiment,
                            priorityMatrix = matrix,
                            userJourneyInsights = journeys\<rparr>, w3))))"

text \<open>\<open>getInsights\<close>\<close>

definition getInsights :: "int \<Rightarrow> world \<Rightarrow> (error + json_doc) \<times> world" where
  "getInsights now w =
     (let cacheKey = ''feedback:insights:v2''
      in case kv_get now cacheKey (CACHE w) of
           Inl e \<Rightarrow> (Inl e, w)
         | Inr (Some cached) \<Rightarrow> (Inr cached, w)
         | Inr None \<Rightarrow>
             (case aggregateAllFeedback w of
                (allFeedback, w1) \<Rightarrow>
                  (case generateInsights now allFeedback w1 of
                     (insights, w2) \<Rightarrow>
                       (case kv_put now cacheKey (InsightsDoc insights) insightsTTL (CACHE w2) of
                          (Inl e, c) \<Rightarrow> (Inl e, w2\<lparr>CACHE := c\<rparr>)
                        | (Inr u, c) \<Rightarrow> (Inr (InsightsDoc insights), w2\<lparr>CACHE := c\<rparr>)))))"

text \<open>
  The AI path is disabled at time \<open>now\<close> when the usage of the current window has reached
  the limit minus the reserved margin: every quota check then denies the request.
\<close>

definition quota_exhausted :: "int \<Rightarrow> world \<Rightarrow> bool" where
  "quota_exhausted now w \<longleftrightarrow>
     AI_TOKENS_PER_DAY - AI_RESERVED_TOKENS \<le> used_after_rollover now (usageCache w)"

text \<open>The world after a quota check: the counter of another day is replaced.\<close>

definition rolled :: "int \<Rightarrow> world \<Rightarrow> world" where
  "rolled now w = w\<lparr>usageCache := roll_over ''ai:tokens:used'' (dayStart now) (usageCache w)\<rparr>"



section \<open>Layer health scorer\<close>

text \<open>
  The visualizer reads records typed \<open>any\<close>: rows of the store, whose metadata is a text
  or \<open>null\<close>, or feedback items, whose metadata is an object.
\<close>

datatype any_metadata = MetadataText metadata_text | MetadataObject metadata | MetadataNull

type_synonym any_item = "any_metadata item_of"

definition row_as_any :: "feedback_row \<Rightarrow> any_item" where
  "row_as_any row =
     \<lparr>id_field = id_field row, source_type = source_type row, source_id = source_id row,
      title = title row, content = content row, author = author row,
      created_at = created_at row,
      metadata = (case metadata row of Some t \<Rightarrow> MetadataText t | None \<Rightarrow> MetadataNull)\<rparr>"

definition item_as_any :: "FeedbackItem \<Rightarrow> any_item" where
  "item_as_any f =
     \<lparr>id_field = id_field f, source_type = source_type f, source_id = source_id f,
      title = title f, content = content f, author = author f,
      created_at = created_at f, metadata = MetadataObject (metadata f)\<rparr>"

text \<open>
  \<open>getNetworkFeedback\<close>: the network-related rows of the store, or, when the query fails,
  the network-related records of \<open>aggregateAllFeedback\<close>.
\<close>

definition network_item :: "FeedbackItem \<Rightarrow> bool" where
  "network_item f \<longleftrightarrow>
     content_includes f ''network'' \<or> content_includes f ''connectivity'' \<or>
     content_includes f ''interface'' \<or>
     (case labels (metadata f) of
        Some ls \<Rightarrow> (\<exists>label \<in> set ls. includes_str label ''network'')
      | None \<Rightarrow> False)"

definition getNetworkFeedback :: "world \<Rightarrow> any_item list \<times> world" where
  "getNetworkFeedback w =
     (case select_network (FEEDBACK_DB w) of
        Inr results \<Rightarrow> (map row_as_any results, w)
      | Inl e \<Rightarrow>
          (case aggregateAllFeedback w of
             (allFeedback, w1) \<Rightarrow> (map item_as_any (filter network_item allFeedback), w1)))"

text \<open>
  \<open>analyzeNetworkLayers\<close>: the seven layers in the order of the object literal;
  \<open>increment\<close> is \<open>layers[name].issueCount++\<close>.
\<close>

definition initial_layers :: "NetworkLayer list" where
  "initial_layers =
     [\<lparr>name = ''Physical Layer'', status = healthy, issueCount = 0,
       description = ''Cabling, connectors, signal transmission''\<rparr>,
      \<lparr>name = ''Data Link Layer'', status = healthy, issueCount = 0,
       description = ''MAC addresses, switches, VLANs''\<rparr>,
      \<lparr>name = ''Network Layer'', status = healthy, issueCount = 0,
       description = ''IP addressing, routing, subnetting''\<rparr>,
      \<lparr>name = ''Transport Layer'', status = healthy, issueCount = 0,
       description = ''TCP/UDP, port management, QoS''\<rparr>,
      \<lparr>name = ''Session Layer'', status = healthy, issueCount = 0,
       description = ''Session management, authentication''\<rparr>,
      \<lparr>name = ''Presentation Layer'', status = healthy, issueCount = 0,
       description = ''Data formatting, encryption''\<rparr>,
      \<lparr>name = ''Application Layer'', status = healthy, issueCount = 0,
       description = ''HTTP, DNS, monitoring protocols''\<rparr>]"

definition increment :: "string \<Rightarrow> NetworkLayer list \<Rightarrow> NetworkLayer list" where
  "increment n layers =
     map (\<lambda>l. if name l = n then l\<lparr>issueCount := issueCount l + 1\<rparr> else l) layers"

definition increment_if :: "bool \<Rightarrow> string \<Rightarrow> NetworkLayer list \<Rightarrow> NetworkLayer list" where
  "increment_if b n layers = (if b then increment n layers else layers)"

definition item_text :: "any_item \<Rightarrow> string" where
  "item_text item = toLowerCase (if content item \<noteq> [] then content item else title item)"

definition physical_issue :: "string \<Rightarrow> bool" where
  "physical_issue c \<longleftrightarrow>
     includes_str c ''cable'' \<or> includes_str c ''connector'' \<or> includes_str c ''fiber'' \<or>
     includes_str c ''physical'' \<or> includes_str c ''hardware''"

definition data_link_issue :: "string \<Rightarrow> bool" where
  "data_link_issue c \<longleftrightarrow>
     includes_str c ''mac'' \<or> includes_str c ''switch'' \<or> includes_str c ''vlan'' \<or>
     includes_str c ''bridge'' \<or> includes_str c ''ethernet''"

definition network_issue :: "string \<Rightarrow> bool" where
  "network_issue c \<longleftrightarrow>
     includes_str c ''ip'' \<or> includes_str c ''routing'' \<or> includes_str c ''subnet'' \<or>
     includes_str c ''arp'' \<or> includes_str c ''icmp'' \<or> includes_str c ''ipv6''"

definition transport_issue :: "string \<Rightarrow> bool" where
  "transport_issue c \<longleftrightarrow>
     includes_str c ''tcp'' \<or> includes_str c ''udp'' \<or> includes_str c ''port'' \<or>
     includes_str c ''qos'' \<or> includes_str c ''congestion''"

definition application_issue :: "string \<Rightarrow> bool" where
  "application_issue c \<longleftrightarrow>
     includes_str c ''http'' \<or> includes_str c ''dns'' \<or> includes_str c ''snmp'' \<or>
     includes_str c ''monitoring'' \<or> includes_str c ''prometheus''"

definition security_issue :: "string \<Rightarrow> bool" where
  "security_issue c \<longleftrightarrow>
     includes_str c ''security'' \<or> includes_str c ''vulnerability'' \<or>
     includes_str c ''injection'' \<or> includes_str c ''attack''"

definition count_issues :: "string \<Rightarrow> NetworkLayer list \<Rightarrow> NetworkLayer list" where
  "count_issues c layers =
     (let layers1 = increment_if (physical_issue c) ''Physical Layer'' layers;
          layers2 = increment_if (data_link_issue c) ''Data Link Layer'' layers1;
          layers3 = increment_if (network_issue c) ''Network Layer'' layers2;
          layers4 = increment_if (transport_issue c) ''Transport Layer'' layers3;
          layers5 = increment_if (application_issue c) ''Application Layer'' layers4
      in if security_issue c
         then increment ''Presentation Layer'' (increment ''Session Layer'' layers5)
         else layers5)"

text \<open>
  The body of the loop: a metadata text is parsed, which can raise a \<open>SyntaxError\<close>;
  the parsed value is not used.
\<close>

definition analyze_item :: "any_item \<Rightarrow> NetworkLayer list \<Rightarrow> error + NetworkLayer list" where
  "analyze_item item layers =
     (let c = item_text item
      in case metadata item of
           MetadataText t \<Rightarrow>
             (case JSON_parse t of Inl e \<Rightarrow> Inl e | Inr m \<Rightarrow> Inr (count_issues c layers))
         | MetadataObject m \<Rightarrow> Inr (count_issues c layers)
         | MetadataNull \<Rightarrow> Inr (count_issues c layers))"

fun analyze_items :: "any_item list \<Rightarrow> NetworkLayer list \<Rightarrow> error + NetworkLayer list" where
  "analyze_items [] layers = Inr layers"
| "analyze_items (item # rest) layers =
     (case analyze_item item layers of
        Inl e \<Rightarrow> Inl e
      | Inr layers' \<Rightarrow> analyze_items rest layers')"

definition set_status :: "NetworkLayer \<Rightarrow> NetworkLayer" where
  "set_status layer =
     (if issueCount layer \<ge> 5 then layer\<lparr>status := critical\<rparr>
      else if issueCount layer \<ge> 2 then layer\<lparr>status := warning\<rparr>
      else layer)"

definition analyzeNetworkLayers :: "any_item list \<Rightarrow> error + NetworkLayer list" where
  "analyzeNetworkLayers feedback =
     (case analyze_items feedback initial_layers of
        Inl e \<Rightarrow> Inl e
      | Inr layers \<Rightarrow> Inr (map set_status layers))"

text \<open>\<open>calculateHealthScore\<close>\<close>

definition calculateHealthScore :: "NetworkLayer list \<Rightarrow> int" where
  "calculateHealthScore layers =
     (let totalIssues = int (sum_list (map issueCount layers));
          criticalCount = int (length (filter (\<lambda>l. status l = critical) layers));
          warningCount = int (length (filter (\<lambda>l. status l = warning) layers));
          score = 100 - (totalIssues * 5) - (criticalCount * 15) - (warningCount * 5)
      in max 0 (min 100 score))"

text \<open>
  \<open>generateComprehensiveVisualization\<close>.  The score, which is at least 0, is printed as a
  natural number.
\<close>

fun status_icon :: "layer_status \<Rightarrow> string" where
  "status_icon healthy = [CHR 0xF0, CHR 0x9F, CHR 0x9F, CHR 0xA2]"
| "status_icon warning = [CHR 0xF0, CHR 0x9F, CHR 0x9F, CHR 0xA1]"
| "status_icon critical = [CHR 0xF0, CHR 0x9F, CHR 0x94, CHR 0xB4]"

definition layer_line :: "NetworkLayer \<Rightarrow> string" where
  "layer_line layer =
     status_icon (status layer) @ '' '' @ name layer @
     (if issueCount layer > 0 then '' ('' @ show_nat (issueCount layer) @ '' issues)''
      else '' (healthy)'') @ [CHR 0x0A]"

fun layer_lines :: "NetworkLayer list \<Rightarrow> string" where
  "layer_lines [] = []"
| "layer_lines [layer] = layer_line layer"
| "layer_lines (layer # next # rest) =
     layer_line layer @ (''   '' @ [CHR 0xE2, CHR 0x94, CHR 0x82, CHR 0x0A]) @ layer_lines (next # rest)"

definition generateComprehensiveVisualization :: "int \<Rightarrow> NetworkLayer list \<Rightarrow> segment list" where
  \<open>generateComprehensiveVisualization now layers =
     (let score = calculateHealthScore layers;
          overallStatus = (if score \<ge> 80 then ([CHR 0xF0, CHR 0x9F, CHR 0x9F, CHR 0xA2] @ '' EXCELLENT'')
                           else if score \<ge> 60 then ([CHR 0xF0, CHR 0x9F, CHR 0x9F, CHR 0xA1] @ '' GOOD'')
                           else if score \<ge> 40 then ([CHR 0xF0, CHR 0x9F, CHR 0x9F, CHR 0xA0] @ '' FAIR'')
                           else ([CHR 0xF0, CHR 0x9F, CHR 0x94, CHR 0xB4] @ '' POOR''));
          criticalCount = length (filter (\<lambda>l. status l = critical) layers);
          warningCount = length (filter (\<lambda>l. status l = warning) layers);
          healthyCount = length (filter (\<lambda>l. status l = healthy) layers)
      in [Text (([CHR 0xF0, CHR 0x9F, CHR 0x8F, CHR 0x97, CHR 0xEF, CHR 0xB8, CHR 0x8F] @ '' *Network Stack Health Visualization*'' @ [CHR 0x0A]) @
                [CHR 0xE2, CHR 0x95, CHR 0x90, CHR 0xE2, CHR 0x95, CHR 0x90, CHR 0xE2, CHR 0x95, CHR 0x90, CHR 0xE2, CHR 0x95, CHR 0x90, CHR 0xE2, CHR 0x95, CHR 0x90, CHR 0xE2, CHR 0x95, CHR 0x90, CHR 0xE2, CHR 0x95, CHR 0x90, CHR 0xE2, CHR 0x95, CHR 0x90, CHR 0xE2, CHR 0x95, CHR 0x90, CHR 0xE2, CHR 0x95, CHR 0x90, CHR 0xE2, CHR 0x95, CHR 0x90, CHR 0xE2, CHR 0x95, CHR 0x90, CHR 0xE2, CHR 0x95, CHR 0x90, CHR 0xE2, CHR 0x95, CHR 0x90, CHR 0xE2, CHR 0x95, CHR 0x90, CHR 0xE2, CHR 0x95, CHR 0x90, CHR 0xE2, CHR 0x95, CHR 0x90, CHR 0xE2, CHR 0x95, CHR 0x90, CHR 0xE2, CHR 0x95, CHR 0x90, CHR 0xE2, CHR 0x95, CHR 0x90, CHR 0xE2, CHR 0x95, CHR 0x90, CHR 0xE2, CHR 0x95, CHR 0x90, CHR 0xE2, CHR 0x95, CHR 0x90, CHR 0xE2, CHR 0x95, CHR 0x90, CHR 0xE2, CHR 0x95, CHR 0x90, CHR 0xE2, CHR 0x95, CHR 0x90, CHR 0xE2, CHR 0x95, CHR 0x90, CHR 0xE2, CHR 0x95, CHR 0x90, CHR 0xE2, CHR 0x95, CHR 0x90, CHR 0xE2, CHR 0x95, CHR 0x90, CHR 0xE2, CHR 0x95, CHR 0x90, CHR 0xE2, CHR 0x95, CHR 0x90, CHR 0xE2, CHR 0x95, CHR 0x90, CHR 0xE2, CHR 0x95, CHR 0x90, CHR 0xE2, CHR 0x95, CHR 0x90, CHR 0xE2, CHR 0x95, CHR 0x90, CHR 0xE2, CHR 0x95, CHR 0x90, CHR 0xE2, CHR 0x95, CHR 0x90, CHR 0xE2, CHR 0x95, CHR 0x90, CHR 0x0A, CHR 0x0A] @
                ([CHR 0xF0, CHR 0x9F, CHR 0x93, CHR 0x8A] @ '' *Overall Health:* '') @ overallStatus @ '' ('' @ show_nat (nat score) @ (''/100)'' @ [CHR 0x0A, CHR 0x0A]) @
                ([CHR 0xF0, CHR 0x9F, CHR 0x94, CHR 0x8D] @ '' *Layer Analysis:*'' @ [CHR 0x0A]) @
                layer_lines layers @
                ([CHR 0x0A, CHR 0xF0, CHR 0x9F, CHR 0x93, CHR 0x88] @ '' *Issue Summary:*'' @ [CHR 0x0A]) @
                ([CHR 0xF0, CHR 0x9F, CHR 0x94, CHR 0xB4] @ '' Critical: '') @ show_nat criticalCount @ ('' layers'' @ [CHR 0x0A]) @
                ([CHR 0xF0, CHR 0x9F, CHR 0x9F, CHR 0xA1] @ '' Warning: '') @ show_nat warningCount @ ('' layers'' @ [CHR 0x0A]) @
                ([CHR 0xF0, CHR 0x9F, CHR 0x9F, CHR 0xA2] @ '' Healthy: '') @ show_nat healthyCount @ ('' layers'' @ [CHR 0x0A, CHR 0x0A]) @
                ([CHR 0xF0, CHR 0x9F, CHR 0x92, CHR 0xA1] @ '' *Recommendations:*'' @ [CHR 0x0A]) @
                (if score \<ge> 80
                 then ([CHR 0xE2, CHR 0x9C, CHR 0x85] @ '' Network stack is in excellent condition'' @ [CHR 0x0A]) @
                      ([CHR 0xF0, CHR 0x9F, CHR 0x94, CHR 0x84] @ '' Continue monitoring and maintenance'' @ [CHR 0x0A])
                 else if score \<ge> 60
                 then ([CHR 0xE2, CHR 0x9A, CHR 0xA0, CHR 0xEF, CHR 0xB8, CHR 0x8F] @ '' Address warning-level issues'' @ [CHR 0x0A]) @
                      ([CHR 0xF0, CHR 0x9F, CHR 0x93, CHR 0x88] @ '' Consider performance optimizations'' @ [CHR 0x0A])
                 else ([CHR 0xF0, CHR 0x9F, CHR 0x9A, CHR 0xA8] @ '' Immediate attention required'' @ [CHR 0x0A]) @
                      ([CHR 0xF0, CHR 0x9F, CHR 0x94, CHR 0xA7] @ '' Focus on critical infrastructure issues'' @ [CHR 0x0A])) @
                ([CHR 0x0A, CHR 0xE2, CHR 0x8F, CHR 0xB0] @ '' *Last updated:* '')),
          LocalTime now,
          Text [CHR 0x0A]])\<close>

text \<open>\<open>createVisualizationData\<close>\<close>

definition createVisualizationData :: "int \<Rightarrow> NetworkLayer list \<Rightarrow> NetworkVisualization" where
  \<open>createVisualizationData now layers =
     (let criticals = map (\<lambda>l. ([CHR 0xF0, CHR 0x9F, CHR 0x9A, CHR 0xA8] @ '' '') @ name l @ '': '' @ show_nat (issueCount l) @ '' issues'')
                        (filter (\<lambda>l. status l = critical) layers);
          warnings = map (\<lambda>l. ([CHR 0xE2, CHR 0x9A, CHR 0xA0, CHR 0xEF, CHR 0xB8, CHR 0x8F] @ '' '') @ name l @ '': '' @ show_nat (issueCount l) @ '' issues'')
                       (filter (\<lambda>l. status l = warning) layers);
          distribution = join '', '' (map (\<lambda>l. name l @ '': '' @ show_nat (issueCount l)) layers);
          comprehensiveVisualization = generateComprehensiveVisualization now layers
      in \<lparr>layerStatus = layers,
          criticalLayers = (if length criticals > 0 then criticals
                            else [([CHR 0xE2, CHR 0x9C, CHR 0x85] @ '' No critical issues detected'')]),
          warningLayers = (if length warnings > 0 then warnings
                           else [([CHR 0xE2, CHR 0x9C, CHR 0x85] @ '' No warnings detected'')]),
          issueDistribution = distribution,
          visualization = comprehensiveVisualization,
          lastUpdated = now,
          healthScore = calculateHealthScore layers\<rparr>)\<close>

text \<open>\<open>generateVisualization\<close>\<close>

definition CACHE_TTL :: int where "CACHE_TTL = 600"

definition generateVisualization :: "int \<Rightarrow> world \<Rightarrow> (error + json_doc) \<times> world" where
  "generateVisualization now w =
     (let cacheKey = ''network:visualization:v2''
      in case kv_get now cacheKey (CACHE w) of
           Inl e \<Rightarrow> (Inl e, w)
         | Inr (Some cached) \<Rightarrow> (Inr cached, w)
         | Inr None \<Rightarrow>
             (case getNetworkFeedback w of
                (feedback, w1) \<Rightarrow>
                  (case analyzeNetworkLayers feedback of
                     Inl e \<Rightarrow> (Inl e, w1)
                   | Inr layers \<Rightarrow>
                       (let v = createVisualizationData now layers
                        in case kv_put now cacheKey (VisualizationDoc v) CACHE_TTL (CACHE w1) of
                             (Inl e, c) \<Rightarrow> (Inl e, w1\<lparr>CACHE := c\<rparr>)
                           | (Inr u, c) \<Rightarrow> (Inr (VisualizationDoc v), w1\<lparr>CACHE := c\<rparr>)))))"

text \<open>A record whose metadata, when it is a text, is one that \<open>JSON.parse\<close> accepts.\<close>

fun parses :: "any_metadata \<Rightarrow> bool" where
  "parses (MetadataText t) = (case JSON_parse t of Inl e \<Rightarrow> False | Inr m \<Rightarrow> True)"
| "parses (MetadataObject m) = True"
| "parses MetadataNull = True"

definition parseable :: "any_item \<Rightarrow> bool" where
  "parseable item = parses (metadata item)"

text \<open>Reading a result: the issue count and status of a layer of a visualization.\<close>

definition layer_summary :: "string \<Rightarrow> NetworkLayer list \<Rightarrow> (nat \<times> layer_status) option" where
  "layer_summary n layers = map_option (\<lambda>l. (issueCount l, status l)) (find (\<lambda>l. name l = n) layers)"

fun visualized_layers :: "error + json_doc \<Rightarrow> NetworkLayer list" where
  "visualized_layers (Inr (VisualizationDoc v)) = layerStatus v"
| "visualized_layers r = []"

section \<open>Sample inputs\<close>

definition sample_metadata :: metadata where
  "sample_metadata = \<lparr>labels = Some [''critical''], priority = None, state = None, other = []\<rparr>"

definition sample_critical_security :: FeedbackItem where
  "sample_critical_security =
     \<lparr>id_field = ''t1'', source_type = ''github'', source_id = ''issues/1'',
      title = ''Login'', content = ''A Security hole in login'', author = ''a'',
      created_at = 0, metadata = sample_metadata\<rparr>"

definition sample_usage :: usageCache where
  "sample_usage = [''ai:tokens:used'' \<mapsto> \<lparr>count = 95000, resetTime = 0\<rparr>]"

definition sample_calls :: "(int \<times> quota_call) list" where
  "sample_calls = [(1000, Check 3000), (2000, Record 120), (3000, ReadKV), (4000, Check 50)]"

definition sample_layers :: "NetworkLayer list" where
  "sample_layers =
     [\<lparr>name = ''Transport Layer'', status = critical, issueCount = 6,
       description = ''TCP/UDP, port management, QoS''\<rparr>,
      \<lparr>name = ''Network Layer'', status = warning, issueCount = 3,
       description = ''IP addressing, routing, subnetting''\<rparr>]"

text \<open>A world with an empty cache and an empty store, in which every call of the AI gateway fails.\<close>

definition kv_empty :: kv where
  "kv_empty = \<lparr>store = Map.empty, get_fails = False, put_fails = False, delete_fails = False\<rparr>"

definition empty_world :: world where
  "empty_world =
     \<lparr>CACHE = kv_empty,
      FEEDBACK_DB = \<lparr>rows = [], read_fails = False, writes_left = None\<rparr>,
      AI = (\<lambda>n request. Throws),
      ai_calls = 0,
      usageCache = Map.empty\<rparr>"

text \<open>Six records about tcp; six records about tcp on the network.\<close>

definition tcp_item :: "string \<Rightarrow> int \<Rightarrow> string \<Rightarrow> FeedbackItem" where
  "tcp_item i t text =
     \<lparr>id_field = i, source_type = ''slack'', source_id = i, title = ''Link report'',
      content = text, author = ''ops'', created_at = t, metadata = empty_metadata\<rparr>"

definition tcp_items :: "FeedbackItem list" where
  "tcp_items =
     [tcp_item ''r1'' 1000 ''tcp resets on uplink 1'', tcp_item ''r2'' 2000 ''tcp resets on uplink 2'',
      tcp_item ''r3'' 3000 ''tcp resets on uplink 3'', tcp_item ''r4'' 4000 ''tcp resets on uplink 4'',
      tcp_item ''r5'' 5000 ''tcp resets on uplink 5'', tcp_item ''r6'' 6000 ''tcp resets on uplink 6'']"

definition tcp_network_items :: "FeedbackItem list" where
  "tcp_network_items =
     [tcp_item ''n1'' 1000 ''network: tcp resets 1'', tcp_item ''n2'' 2000 ''network: tcp resets 2'',
      tcp_item ''n3'' 3000 ''network: tcp resets 3'', tcp_item ''n4'' 4000 ''network: tcp resets 4'',
      tcp_item ''n5'' 5000 ''network: tcp resets 5'', tcp_item ''n6'' 6000 ''network: tcp resets 6'']"

text \<open>
  A world whose AI counter stands at 95000 for the current day; worlds whose cache holds
  results computed earlier; a world whose cache does not answer.
\<close>

definition exhausted_world :: world where
  "exhausted_world = empty_world\<lparr>usageCache := sample_usage\<rparr>"

definition stale_insights :: FeedbackInsights where
  "stale_insights = fst (generateInsights 0 [] exhausted_world)"

definition stale_summary :: FeedbackSummary where
  "stale_summary = fst (analyzeFeedbackSummary 0 [] exhausted_world)"

definition cached_world :: world where
  "cached_world =
     empty_world\<lparr>CACHE := kv_empty\<lparr>store :=
       [''feedback:summary'' \<mapsto> \<lparr>payload = SummaryDoc stale_summary, expires_at = 300000\<rparr>,
        ''feedback:insights:v2'' \<mapsto> \<lparr>payload = InsightsDoc stale_insights, expires_at = 600000\<rparr>]\<rparr>\<rparr>"




section \<open>Strings: basic facts\<close>

lemma startsWith_prefix: "startsWith s p \<longleftrightarrow> prefix p s"
  by (induction s p rule: startsWith.induct) auto

lemma includes_str_sublist: "includes_str s sub \<longleftrightarrow> sublist sub s"
  by (induction s) (auto simp: startsWith_prefix sublist_Cons_right)

lemma toLowerCase_append: "toLowerCase (a @ b) = toLowerCase a @ toLowerCase b"
  by (simp add: toLowerCase_def)

lemma includes_str_append_left: "includes_str a sub \<Longrightarrow> includes_str (a @ b) sub"
  unfolding includes_str_sublist sublist_def by (metis append.assoc)

section \<open>Severity\<close>

lemma if_add_weight: "(if b then s + w else s) = s + weight b w"
  by (simp add: weight_def)

lemma weight_bounds: "0 \<le> w \<Longrightarrow> 0 \<le> weight b w \<and> weight b w \<le> w"
  by (simp add: weight_def)

lemma calculateSeverity_closed_form:
  "calculateSeverity f =
     min (1 + weight (rule_critical f) 3 + weight (rule_crash f) 2 + weight (rule_blocking f) 2
            + weight (rule_high f) 1 + weight (rule_bug_report f) 1
            + weight (rule_security_researcher f) 2) 5"
  unfolding calculateSeverity_def Let_def rule_critical_def rule_crash_def
      rule_blocking_def rule_high_def rule_bug_report_def rule_security_researcher_def
      severity_text_def if_add_weight ..

text \<open>
  Claim C4.  For every feedback record the severity is an integer between 1 and 5: it is
  1 plus the weights of the rules that fire (3 for critical/security/vulnerability, 2 for
  crash/data loss, 2 for blocking, 1 for high priority, 1 for a bug-report source, 2 for
  a security-researcher source), cut off at 5.
\<close>

theorem calculateSeverity_bounded:
  "1 \<le> calculateSeverity f \<and> calculateSeverity f \<le> 5 \<and>
   calculateSeverity f =
     min (1 + weight (rule_critical f) 3 + weight (rule_crash f) 2 + weight (rule_blocking f) 2
            + weight (rule_high f) 1 + weight (rule_bug_report f) 1
            + weight (rule_security_researcher f) 2) 5"
proof -
  have "0 \<le> weight (rule_critical f) 3" "0 \<le> weight (rule_crash f) 2"
    "0 \<le> weight (rule_blocking f) 2" "0 \<le> weight (rule_high f) 1"
    "0 \<le> weight (rule_bug_report f) 1" "0 \<le> weight (rule_security_researcher f) 2"
    by (simp_all add: weight_bounds)
  then show ?thesis
    unfolding calculateSeverity_closed_form by linarith
qed

theorem calculateSeverity_bounded_witness:
  "1 \<le> calculateSeverity sample_critical_security \<and>
   calculateSeverity sample_critical_security \<le> 5"
  using calculateSeverity_bounded [of sample_critical_security] by blast

text \<open>
  Claim C8.  A record labelled \<open>critical\<close> whose content mentions "security", and for
  which no other rule fires, has severity exactly 4: the weight 3 is added once although two
  conditions of that rule hold.
\<close>

theorem calculateSeverity_critical_and_security:
  assumes "labels (metadata f) = Some [''critical'']"
    and "includes_str (toLowerCase (content f)) ''security''"
    and "\<not> rule_crash f" and "\<not> rule_blocking f" and "\<not> rule_high f"
    and "\<not> rule_bug_report f" and "\<not> rule_security_researcher f"
  shows "calculateSeverity f = 4"
proof -
  have "''critical'' \<in> set (labels_or_empty f)"
    using assms(1) by (simp add: labels_or_empty_def)
  moreover have "includes_str (severity_text f) ''security''"
    using assms(2) by (simp add: severity_text_def toLowerCase_append includes_str_append_left)
  ultimately have "rule_critical f"
    by (simp add: rule_critical_def)
  then show ?thesis
    using assms(3-7) by (simp add: calculateSeverity_closed_form weight_def)
qed

theorem calculateSeverity_critical_and_security_witness:
  "labels (metadata sample_critical_security) = Some [''critical''] \<and>
   includes_str (toLowerCase (content sample_critical_security)) ''security'' \<and>
   calculateSeverity sample_critical_security = 4"
proof -
  have l: "labels (metadata sample_critical_security) = Some [''critical'']"
    by (simp add: sample_critical_security_def sample_metadata_def)
  have s: "includes_str (toLowerCase (content sample_critical_security)) ''security''"
    by (simp add: sample_critical_security_def toLowerCase_def toLowerChar_def)
  have t: "severity_text sample_critical_security = ''a security hole in loginlogin''"
    by (simp add: severity_text_def sample_critical_security_def toLowerCase_def toLowerChar_def)
  have le: "labels_or_empty sample_critical_security = [''critical'']"
    by (simp add: labels_or_empty_def l)
  have c: "\<not> rule_crash sample_critical_security"
    by (simp add: rule_crash_def t)
  have b: "\<not> rule_blocking sample_critical_security"
    by (simp add: rule_blocking_def t le)
  have h: "\<not> rule_high sample_critical_security"
    by (simp add: rule_high_def le) (simp add: sample_critical_security_def sample_metadata_def)
  have g: "\<not> rule_bug_report sample_critical_security"
    by (simp add: rule_bug_report_def sample_critical_security_def)
  have r: "\<not> rule_security_researcher sample_critical_security"
    by (simp add: rule_security_researcher_def sample_critical_security_def)
  show ?thesis
    using calculateSeverity_critical_and_security [OF l s c b h g r] l s by simp
qed

section \<open>Critical issues\<close>

lemma set_insert_by: "set (insert_by cmp x ys) = insert x (set ys)"
  by (induction ys) auto

lemma set_sort_by: "set (sort_by cmp xs) = set xs"
  by (induction xs) (simp_all add: sort_by_def set_insert_by)

lemma length_insert_by: "length (insert_by cmp x ys) = Suc (length ys)"
  by (induction ys) auto

lemma length_sort_by: "length (sort_by cmp xs) = length xs"
  by (induction xs) (simp_all add: sort_by_def length_insert_by)










section \<open>Quota tracker\<close>

lemma used_canMakeAIRequest:
  "used (snd (canMakeAIRequest now n c)) = used_after_rollover now c"
  by (auto simp: canMakeAIRequest_def Let_def used_def used_after_rollover_def window_current_def
      roll_over_def count_or_zero_def split: option.splits)

lemma window_current_canMakeAIRequest: "window_current now (snd (canMakeAIRequest now n c))"
  by (auto simp: canMakeAIRequest_def Let_def window_current_def roll_over_def)

lemma canMakeAIRequest_fst:
  "fst (canMakeAIRequest now n c) \<longleftrightarrow>
     used_after_rollover now c + n < AI_TOKENS_PER_DAY - AI_RESERVED_TOKENS"
  using used_canMakeAIRequest [of now n c]
  by (simp add: canMakeAIRequest_def Let_def used_def)



lemma window_current_recordAITokensUsed: "window_current now (recordAITokensUsed now t c)"
  by (auto simp: recordAITokensUsed_def Let_def window_current_def split: option.splits)

lemma used_recordAITokensUsed:
  "used (recordAITokensUsed now t c) = used_after_rollover now c + t"
  by (auto simp: recordAITokensUsed_def Let_def used_def used_after_rollover_def
      window_current_def count_or_zero_def split: option.splits)

lemma other_keys_roll_over:
  "key \<noteq> ''ai:tokens:used'' \<Longrightarrow> roll_over key start c ''ai:tokens:used'' = c ''ai:tokens:used''"
  by (simp add: roll_over_def)

lemma other_calls_keep_ai_entry:
  "snd (canReadFromD1 now n c) ''ai:tokens:used'' = c ''ai:tokens:used''"
  "snd (canWriteToD1 now n c) ''ai:tokens:used'' = c ''ai:tokens:used''"
  "snd (canReadFromKV now c) ''ai:tokens:used'' = c ''ai:tokens:used''"
  "snd (canWriteToKV now c) ''ai:tokens:used'' = c ''ai:tokens:used''"
  by (simp_all add: canReadFromD1_def canWriteToD1_def canReadFromKV_def canWriteToKV_def
      Let_def other_keys_roll_over)

lemma quota_step_same_window:
  assumes "window_current now c" and "dayStart t = dayStart now" and "nonneg_record (t, call)"
  shows "window_current now (quota_step (t, call) c) \<and> used c \<le> used (quota_step (t, call) c)"
proof -
  have wt: "window_current t c"
    using assms(1,2) by (simp add: window_current_def)
  have same: "window_current now x = window_current t x" for x
    using assms(2) by (simp add: window_current_def)
  show ?thesis
  proof (cases call)
    case (Check n)
    then show ?thesis
      using wt same window_current_canMakeAIRequest [of t n c] used_canMakeAIRequest [of t n c]
      by (simp add: used_after_rollover_def)
  next
    case (Record tokens)
    then show ?thesis
      using wt same assms(3) window_current_recordAITokensUsed [of t tokens c]
        used_recordAITokensUsed [of t tokens c]
      by (simp add: used_after_rollover_def)
  next
    case (ReadD1 n)
    then show ?thesis
      using assms(1) by (simp add: window_current_def used_def count_or_zero_def other_calls_keep_ai_entry)
  next
    case (WriteD1 n)
    then show ?thesis
      using assms(1) by (simp add: window_current_def used_def count_or_zero_def other_calls_keep_ai_entry)
  next
    case ReadKV
    then show ?thesis
      using assms(1) by (simp add: window_current_def used_def count_or_zero_def other_calls_keep_ai_entry)
  next
    case WriteKV
    then show ?thesis
      using assms(1) by (simp add: window_current_def used_def count_or_zero_def other_calls_keep_ai_entry)
  qed
qed

lemma quota_run_same_window:
  "window_current now c \<Longrightarrow> \<forall>call \<in> set calls. dayStart (fst call) = dayStart now \<and> nonneg_record call \<Longrightarrow>
   window_current now (quota_run calls c) \<and> used c \<le> used (quota_run calls c)"
proof (induction calls arbitrary: c)
  case Nil
  then show ?case by (simp add: quota_run_def)
next
  case (Cons call calls)
  obtain t k where call: "call = (t, k)" by (cases call)
  have step: "window_current now (quota_step call c) \<and> used c \<le> used (quota_step call c)"
    using quota_step_same_window [of now c t k] Cons.prems call by simp
  then have "window_current now (quota_run calls (quota_step call c)) \<and>
      used (quota_step call c) \<le> used (quota_run calls (quota_step call c))"
    using Cons.IH [of "quota_step call c"] Cons.prems by simp
  with step show ?case by (simp add: quota_run_def)
qed

lemma not_record_no_increase:
  assumes "0 \<le> used c" and "\<forall>tokens. call \<noteq> Record tokens"
  shows "used (quota_step (t, call) c) \<le> used c"
proof (cases call)
  case (Check n)
  then show ?thesis
    using assms(1) used_canMakeAIRequest [of t n c] by (simp add: used_after_rollover_def)
next
  case (Record tokens)
  then show ?thesis using assms(2) by simp
qed (simp_all add: used_def count_or_zero_def other_calls_keep_ai_entry)

text \<open>
  Claim C10.  The quota check does not consume: after \<open>canMakeAIRequest\<close> the usage count is
  the one before, or 0 when the day has changed.  Of the calls of the manager only
  \<open>recordAITokensUsed\<close> can raise the count, and over any sequence of calls made within the
  day of the current window, with non-negative token amounts, the count does not go down.
\<close>

theorem canMakeAIRequest_never_consumes:
  "used (snd (canMakeAIRequest now n c)) = (if window_current now c then used c else 0) \<and>
   (0 \<le> used c \<longrightarrow> (\<forall>tokens. call \<noteq> Record tokens) \<longrightarrow>
      used (quota_step (now, call) c) \<le> used c) \<and>
   (window_current now c \<longrightarrow>
      (\<forall>call \<in> set calls. dayStart (fst call) = dayStart now \<and> nonneg_record call) \<longrightarrow>
      used c \<le> used (quota_run calls c))"
  using used_canMakeAIRequest [of now n c] not_record_no_increase [of c call now]
    quota_run_same_window [of now c calls]
  by (simp add: used_after_rollover_def)

theorem canMakeAIRequest_never_consumes_witness:
  "window_current 0 sample_usage \<and>
   list_all (\<lambda>call. dayStart (fst call) = dayStart 0 \<and> nonneg_record call) sample_calls \<and>
   used sample_usage \<le> used (quota_run sample_calls sample_usage) \<and>
   used (snd (canMakeAIRequest 0 3000 sample_usage)) = used sample_usage \<and>
   used (quota_step (0, Check 3000) sample_usage) \<le> used sample_usage"
proof -
  have w: "window_current 0 sample_usage"
    by (simp add: window_current_def sample_usage_def dayStart_def)
  have c: "\<forall>call \<in> set sample_calls. dayStart (fst call) = dayStart 0 \<and> nonneg_record call"
    by (simp add: sample_calls_def dayStart_def)
  have u: "0 \<le> used sample_usage"
    by (simp add: used_def count_or_zero_def sample_usage_def)
  have k: "\<forall>tokens. Check 3000 \<noteq> Record tokens"
    by simp
  show ?thesis
    using canMakeAIRequest_never_consumes [of 0 3000 sample_usage "Check 3000" sample_calls] w c u k
    by (simp add: list_all_iff)
qed

section \<open>Health score\<close>

lemma calculateHealthScore_range: "0 \<le> calculateHealthScore layers \<and> calculateHealthScore layers \<le> 100"
  by (simp add: calculateHealthScore_def Let_def)

lemma all_zero_sum: "\<forall>l \<in> set layers. issueCount l = 0 \<Longrightarrow> sum_list (map issueCount layers) = 0"
  by (induction layers) auto

lemma healthy_score:
  assumes "\<forall>l \<in> set layers. issueCount l = 0 \<and> status l = healthy"
  shows "calculateHealthScore layers = 100"
proof -
  have s: "sum_list (map issueCount layers) = 0"
    using assms by (simp add: all_zero_sum)
  have c: "filter (\<lambda>l. status l = critical) layers = []"
    using assms by (auto simp: filter_empty_conv)
  have w: "filter (\<lambda>l. status l = warning) layers = []"
    using assms by (auto simp: filter_empty_conv)
  show ?thesis
    by (simp add: calculateHealthScore_def Let_def s c w)
qed

lemma analyze_empty: "analyzeNetworkLayers [] = Inr initial_layers"
  by (simp add: analyzeNetworkLayers_def initial_layers_def set_status_def)

lemma initial_healthy: "\<forall>l \<in> set initial_layers. issueCount l = 0 \<and> status l = healthy"
  by (simp add: initial_layers_def)

text \<open>
  Claim C5.  The health score of any list of layers is
  \<open>100 - 5 * totalIssues - 15 * criticalLayerCount - 5 * warningLayerCount\<close> cut to the range
  0 to 100; it is 100 when every layer has no issue and is healthy, as for the seven layers
  computed from an empty batch.
\<close>

theorem calculateHealthScore_clamped:
  "calculateHealthScore layers =
     max 0 (min 100 (100 - 5 * int (sum_list (map issueCount layers))
                         - 15 * int (length (filter (\<lambda>l. status l = critical) layers))
                         - 5 * int (length (filter (\<lambda>l. status l = warning) layers)))) \<and>
   0 \<le> calculateHealthScore layers \<and> calculateHealthScore layers \<le> 100 \<and>
   ((\<forall>l \<in> set layers. issueCount l = 0 \<and> status l = healthy) \<longrightarrow>
      calculateHealthScore layers = 100) \<and>
   analyzeNetworkLayers [] = Inr initial_layers \<and> length initial_layers = 7 \<and>
   calculateHealthScore initial_layers = 100"
proof -
  have f: "calculateHealthScore layers =
     max 0 (min 100 (100 - 5 * int (sum_list (map issueCount layers))
                         - 15 * int (length (filter (\<lambda>l. status l = critical) layers))
                         - 5 * int (length (filter (\<lambda>l. status l = warning) layers))))"
    by (simp add: calculateHealthScore_def Let_def mult.commute)
  have i: "calculateHealthScore initial_layers = 100"
    using healthy_score [OF initial_healthy] .
  have n: "length initial_layers = 7"
    by (simp add: initial_layers_def)
  show ?thesis
    using f i n calculateHealthScore_range [of layers] healthy_score [of layers] analyze_empty
    by blast
qed


theorem calculateHealthScore_clamped_witness:
  "list_all (\<lambda>l. issueCount l = 0 \<and> status l = healthy) (take 2 initial_layers) \<and>
   calculateHealthScore (take 2 initial_layers) = 100 \<and>
   0 \<le> calculateHealthScore sample_layers \<and> calculateHealthScore sample_layers \<le> 100"
proof -
  have h: "\<forall>l \<in> set (take 2 initial_layers). issueCount l = 0 \<and> status l = healthy"
    by (simp add: initial_layers_def)
  show ?thesis
    using calculateHealthScore_clamped [of "take 2 initial_layers"]
      calculateHealthScore_clamped [of sample_layers] h
    unfolding list_all_iff by blast
qed

section \<open>Transport layer\<close>

lemma map_name_increment: "map name (increment n layers) = map name layers"
  by (induction layers) (auto simp: increment_def)

lemma layer_summary_increment:
  "layer_summary m (increment n layers) =
     (if n = m then map_option (\<lambda>(k, s). (k + 1, s)) (layer_summary m layers)
      else layer_summary m layers)"
  by (induction layers) (auto simp: increment_def layer_summary_def)

lemma layer_summary_count_issues:
  "layer_summary ''Transport Layer'' (count_issues c layers) =
     (if transport_issue c
      then map_option (\<lambda>(k, s). (k + 1, s)) (layer_summary ''Transport Layer'' layers)
      else layer_summary ''Transport Layer'' layers)"
  by (simp add: count_issues_def Let_def increment_if_def layer_summary_increment)



lemma analyze_item_parseable:
  "parseable item \<Longrightarrow> analyze_item item layers = Inr (count_issues (item_text item) layers)"
  by (cases "metadata item")
     (auto simp: analyze_item_def Let_def parseable_def split: sum.splits)

lemma analyze_items_transport:
  assumes "\<forall>item \<in> set feedback. parseable item \<and> transport_issue (item_text item)"
    and "layer_summary ''Transport Layer'' layers = Some (k, s)"
  shows "\<exists>layers'. analyze_items feedback layers = Inr layers' \<and>
           layer_summary ''Transport Layer'' layers' = Some (k + length feedback, s)"
  using assms
proof (induction feedback arbitrary: layers k)
  case Nil
  then show ?case by simp
next
  case (Cons item rest)
  have step: "analyze_item item layers = Inr (count_issues (item_text item) layers)"
    using Cons.prems(1) by (simp add: analyze_item_parseable)
  have "layer_summary ''Transport Layer'' (count_issues (item_text item) layers) = Some (k + 1, s)"
    using Cons.prems by (simp add: layer_summary_count_issues)
  then obtain layers' where
    "analyze_items rest (count_issues (item_text item) layers) = Inr layers'"
    "layer_summary ''Transport Layer'' layers' = Some (k + 1 + length rest, s)"
    using Cons.IH [of "count_issues (item_text item) layers" "k + 1"] Cons.prems(1) by auto
  then show ?case
    using step by simp
qed

lemma layer_summary_set_status:
  "layer_summary n layers = Some (k, s) \<Longrightarrow>
   layer_summary n (map set_status layers) =
     Some (k, if k \<ge> 5 then critical else if k \<ge> 2 then warning else s)"
  by (induction layers) (auto simp: layer_summary_def set_status_def split: if_splits)

lemma initial_transport: "layer_summary ''Transport Layer'' initial_layers = Some (0, healthy)"
  by (simp add: layer_summary_def initial_layers_def)

lemma analyzeNetworkLayers_transport:
  assumes "\<forall>item \<in> set feedback. parseable item \<and> transport_issue (item_text item)"
  shows "\<exists>layers. analyzeNetworkLayers feedback = Inr layers \<and>
           layer_summary ''Transport Layer'' layers =
             Some (length feedback,
                   if length feedback \<ge> 5 then critical
                   else if length feedback \<ge> 2 then warning else healthy)"
proof -
  obtain layers' where a: "analyze_items feedback initial_layers = Inr layers'"
    and b: "layer_summary ''Transport Layer'' layers' = Some (length feedback, healthy)"
    using analyze_items_transport [OF assms initial_transport] by auto
  show ?thesis
    using a layer_summary_set_status [OF b] by (simp add: analyzeNetworkLayers_def)
qed

lemma layerStatus_createVisualizationData: "layerStatus (createVisualizationData now layers) = layers"
  by (simp add: createVisualizationData_def Let_def)

lemma generateVisualization_miss:
  assumes "kv_get now ''network:visualization:v2'' (CACHE w) = Inr None"
    and "\<not> put_fails (CACHE w)"
    and "select_network (FEEDBACK_DB w) = Inr results"
    and "analyzeNetworkLayers (map row_as_any results) = Inr layers"
  shows "visualized_layers (fst (generateVisualization now w)) = layers"
  using assms
  by (simp add: generateVisualization_def getNetworkFeedback_def kv_put_def
      layerStatus_createVisualizationData Let_def)


lemma tcp_is_transport_issue: "includes_str c ''tcp'' \<Longrightarrow> transport_issue c"
  by (simp add: transport_issue_def)

lemma item_text_row:
  "includes_str (toLowerCase (content r)) ''tcp'' \<Longrightarrow>
   item_text (row_as_any r) = toLowerCase (content r)"
  by (cases "content r") (auto simp: item_text_def row_as_any_def toLowerCase_def)

lemma pipeline_tcp:
  assumes miss: "kv_get now ''network:visualization:v2'' (CACHE w) = Inr None"
    and put: "\<not> put_fails (CACHE w)"
    and rd: "\<not> read_fails (FEEDBACK_DB w)"
    and six: "length (rows (FEEDBACK_DB w)) = 6"
    and rs: "\<forall>r \<in> set (rows (FEEDBACK_DB w)).
               network_related r \<and> parseable (row_as_any r) \<and>
               includes_str (toLowerCase (content r)) ''tcp''"
  shows "layer_summary ''Transport Layer'' (visualized_layers (fst (generateVisualization now w)))
           = Some (6, critical)"
proof -
  define results where "results = sort_by newest_first (rows (FEEDBACK_DB w))"
  have f: "filter network_related (rows (FEEDBACK_DB w)) = rows (FEEDBACK_DB w)"
    using rs by (simp add: filter_id_conv)
  have sel: "select_network (FEEDBACK_DB w) = Inr results"
    using rd by (simp add: select_network_def f results_def)
  have len: "length (map row_as_any results) = 6"
    by (simp add: results_def length_sort_by six)
  have "\<forall>item \<in> set (map row_as_any results). parseable item \<and> transport_issue (item_text item)"
    using rs by (auto simp: results_def set_sort_by item_text_row tcp_is_transport_issue)
  then obtain layers where a: "analyzeNetworkLayers (map row_as_any results) = Inr layers"
    and b: "layer_summary ''Transport Layer'' layers = Some (6, critical)"
    using analyzeNetworkLayers_transport [of "map row_as_any results"] len by auto
  show ?thesis
    using generateVisualization_miss [OF miss put sel a] b by simp
qed

text \<open>Evaluation of the sample worlds.\<close>

lemma stringify_empty: "JSON_stringify empty_metadata = ''{}''"
  by (simp add: JSON_stringify_def empty_metadata_def)

lemma feed_tcp_items:
  "processFeedbackDirectly tcp_items empty_world =
     (Inr (), empty_world\<lparr>FEEDBACK_DB := \<lparr>rows = map to_row tcp_items, read_fails = False,
                                            writes_left = None\<rparr>\<rparr>)"
  by (simp add: processFeedbackDirectly_def tcp_items_def empty_world_def insert_or_replace_def
      to_row_def tcp_item_def kv_delete_def kv_empty_def)

lemma feed_tcp_network_items:
  "processFeedbackDirectly tcp_network_items empty_world =
     (Inr (), empty_world\<lparr>FEEDBACK_DB := \<lparr>rows = map to_row tcp_network_items, read_fails = False,
                                            writes_left = None\<rparr>\<rparr>)"
  by (simp add: processFeedbackDirectly_def tcp_network_items_def empty_world_def
      insert_or_replace_def to_row_def tcp_item_def kv_delete_def kv_empty_def)


lemma tcp_rows_filtered: "filter network_related (map to_row tcp_items) = []"
  by code_simp

lemma sort_by_Nil: "sort_by cmp [] = []"
  by (simp add: sort_by_def)

text \<open>
  Six distinct records that mention "tcp" but none of the words of the query of
  \<open>getNetworkFeedback\<close> are stored; the visualization computed next has a Transport layer
  with no issue.
\<close>

theorem tcp_records_filtered_out:
  "fst (processFeedbackDirectly tcp_items empty_world) = Inr () \<and>
   length tcp_items = 6 \<and> distinct tcp_items \<and>
   list_all (\<lambda>f. includes_str (content f) ''tcp'') tcp_items \<and>
   layer_summary ''Transport Layer''
     (visualized_layers
        (fst (generateVisualization 7000 (snd (processFeedbackDirectly tcp_items empty_world)))))
     = Some (0, healthy)"
proof -
  let ?w = "snd (processFeedbackDirectly tcp_items empty_world)"
  have c: "CACHE ?w = kv_empty"
    by (simp add: feed_tcp_items) (simp add: empty_world_def)
  have miss: "kv_get 7000 ''network:visualization:v2'' (CACHE ?w) = Inr None"
    unfolding c by (simp add: kv_empty_def kv_get_def)
  have put: "\<not> put_fails (CACHE ?w)"
    unfolding c by (simp add: kv_empty_def)
  have sel: "select_network (FEEDBACK_DB ?w) = Inr []"
    by (simp add: feed_tcp_items select_network_def tcp_rows_filtered sort_by_Nil)
  have a: "analyzeNetworkLayers (map row_as_any []) = Inr initial_layers"
    by (simp add: analyze_empty)
  have "visualized_layers (fst (generateVisualization 7000 ?w)) = initial_layers"
    using generateVisualization_miss [OF miss put sel a] .
  moreover have "length tcp_items = 6" "distinct tcp_items"
    "list_all (\<lambda>f. includes_str (content f) ''tcp'') tcp_items"
    by code_simp+
  ultimately show ?thesis
    by (simp add: feed_tcp_items initial_transport)
qed

section \<open>Status of a layer\<close>

lemma map_status_increment: "map status (increment n layers) = map status layers"
  by (induction layers) (auto simp: increment_def)

lemma map_status_count_issues: "map status (count_issues c layers) = map status layers"
  by (simp add: count_issues_def Let_def increment_if_def map_status_increment)

lemma map_name_count_issues: "map name (count_issues c layers) = map name layers"
  by (simp add: count_issues_def Let_def increment_if_def map_name_increment)

lemma analyze_item_keeps:
  "analyze_item item layers = Inr layers' \<Longrightarrow>
   map status layers' = map status layers \<and> map name layers' = map name layers"
  by (cases "metadata item")
     (auto simp: analyze_item_def Let_def map_status_count_issues map_name_count_issues
       split: sum.splits)

lemma analyze_items_keeps:
  "analyze_items feedback layers = Inr layers' \<Longrightarrow>
   map status layers' = map status layers \<and> map name layers' = map name layers"
proof (induction feedback arbitrary: layers)
  case Nil
  then show ?case by simp
next
  case (Cons item rest)
  then obtain mid where m: "analyze_item item layers = Inr mid"
    and r: "analyze_items rest mid = Inr layers'"
    by (auto split: sum.splits)
  show ?case
    using analyze_item_keeps [OF m] Cons.IH [OF r] by simp
qed

lemma set_status_rule:
  assumes "status l = healthy"
  shows "(status (set_status l) = critical \<longleftrightarrow> 5 \<le> issueCount (set_status l)) \<and>
         (status (set_status l) = warning \<longleftrightarrow>
            2 \<le> issueCount (set_status l) \<and> issueCount (set_status l) < 5) \<and>
         (status (set_status l) = healthy \<longleftrightarrow> issueCount (set_status l) < 2)"
  using assms by (simp add: set_status_def)

lemma analyzeNetworkLayers_status_rule:
  assumes "analyzeNetworkLayers feedback = Inr layers"
  shows "\<forall>l \<in> set layers.
           (status l = critical \<longleftrightarrow> 5 \<le> issueCount l) \<and>
           (status l = warning \<longleftrightarrow> 2 \<le> issueCount l \<and> issueCount l < 5) \<and>
           (status l = healthy \<longleftrightarrow> issueCount l < 2)"
proof -
  obtain counted where c: "analyze_items feedback initial_layers = Inr counted"
    and l: "layers = map set_status counted"
    using assms by (auto simp: analyzeNetworkLayers_def split: sum.splits)
  have "map status counted = map status initial_layers"
    using analyze_items_keeps [OF c] by simp
  then have "set (map status counted) = {healthy}"
    by (simp add: initial_layers_def)
  then have "\<forall>x \<in> set counted. status x = healthy"
    by auto
  then show ?thesis
    unfolding l using set_status_rule by auto
qed


lemma layer_summary_count_issues_general:
  "layer_summary ''Transport Layer'' layers = Some (k, s) \<Longrightarrow>
   layer_summary ''Transport Layer'' (count_issues c layers) =
     Some (k + (if transport_issue c then 1 else 0), s)"
  by (simp add: layer_summary_count_issues)

lemma analyze_items_transport_count:
  assumes "\<forall>item \<in> set feedback. parseable item"
    and "layer_summary ''Transport Layer'' layers = Some (k, s)"
  shows "\<exists>layers'. analyze_items feedback layers = Inr layers' \<and>
           layer_summary ''Transport Layer'' layers' =
             Some (k + length (filter (\<lambda>item. transport_issue (item_text item)) feedback), s)"
  using assms
proof (induction feedback arbitrary: layers k)
  case Nil
  then show ?case by simp
next
  case (Cons item rest)
  let ?mid = "count_issues (item_text item) layers"
  let ?k = "k + (if transport_issue (item_text item) then 1 else 0)"
  have step: "analyze_item item layers = Inr ?mid"
    using Cons.prems(1) by (simp add: analyze_item_parseable)
  have "layer_summary ''Transport Layer'' ?mid = Some (?k, s)"
    using Cons.prems(2) by (rule layer_summary_count_issues_general)
  then obtain layers' where
    "analyze_items rest ?mid = Inr layers'"
    "layer_summary ''Transport Layer'' layers' =
       Some (?k + length (filter (\<lambda>item. transport_issue (item_text item)) rest), s)"
    using Cons.IH [of ?mid ?k] Cons.prems(1) by auto
  then show ?case
    using step by auto
qed

lemma analyzeNetworkLayers_transport_count:
  assumes "\<forall>item \<in> set feedback. parseable item"
  shows "\<exists>layers. analyzeNetworkLayers feedback = Inr layers \<and>
           map_option fst (layer_summary ''Transport Layer'' layers) =
             Some (length (filter (\<lambda>item. transport_issue (item_text item)) feedback))"
proof -
  obtain layers' where a: "analyze_items feedback initial_layers = Inr layers'"
    and b: "layer_summary ''Transport Layer'' layers' =
       Some (0 + length (filter (\<lambda>item. transport_issue (item_text item)) feedback), healthy)"
    using analyze_items_transport_count [OF assms initial_transport] by blast
  show ?thesis
    using a layer_summary_set_status [OF b] by (simp add: analyzeNetworkLayers_def)
qed

lemma generateVisualization_miss_layers:
  assumes "kv_get now ''network:visualization:v2'' (CACHE w) = Inr None"
  shows "visualized_layers (fst (generateVisualization now w)) = [] \<or>
         analyzeNetworkLayers (fst (getNetworkFeedback w)) =
           Inr (visualized_layers (fst (generateVisualization now w)))"
  using assms
  by (cases "getNetworkFeedback w")
     (auto simp: generateVisualization_def Let_def layerStatus_createVisualizationData
       split: sum.splits prod.splits)

text \<open>
  Claim C7, as amended.  The status of every layer computed by \<open>analyzeNetworkLayers\<close>, and
  of every layer of a visualization computed on a cache miss, is critical exactly when its
  issue count is at least 5, warning exactly when it is 2, 3 or 4, and healthy otherwise.
  For records whose metadata, where it is a text, is one that \<open>JSON.parse\<close> accepts, the
  issue count of the Transport layer is the number of records whose text mentions tcp, udp,
  port, qos or congestion: six records that mention "tcp" give the count 6 and the status
  critical.  Through \<open>generateVisualization\<close> the same holds on a cache miss when the store
  holds six such rows, each of which the query of \<open>getNetworkFeedback\<close> selects (its content
  mentions network, connectivity or interface, or its metadata text mentions network or
  interface).
\<close>

theorem tcp_records_reach_transport_layer:
  "(analyzeNetworkLayers feedback = Inr layers \<longrightarrow>
      (\<forall>l \<in> set layers.
          (status l = critical \<longleftrightarrow> 5 \<le> issueCount l) \<and>
          (status l = warning \<longleftrightarrow> 2 \<le> issueCount l \<and> issueCount l < 5) \<and>
          (status l = healthy \<longleftrightarrow> issueCount l < 2))) \<and>
   (kv_get now ''network:visualization:v2'' (CACHE w) = Inr None \<longrightarrow>
      (\<forall>l \<in> set (visualized_layers (fst (generateVisualization now w))).
          (status l = critical \<longleftrightarrow> 5 \<le> issueCount l) \<and>
          (status l = warning \<longleftrightarrow> 2 \<le> issueCount l \<and> issueCount l < 5) \<and>
          (status l = healthy \<longleftrightarrow> issueCount l < 2))) \<and>
   ((\<forall>item \<in> set feedback. parseable item) \<longrightarrow>
      (\<exists>counted. analyzeNetworkLayers feedback = Inr counted \<and>
                 map_option fst (layer_summary ''Transport Layer'' counted) =
                   Some (length (filter (\<lambda>item. transport_issue (item_text item)) feedback)))) \<and>
   ((length feedback = 6 \<and>
     (\<forall>item \<in> set feedback. parseable item \<and> includes_str (item_text item) ''tcp'')) \<longrightarrow>
      (\<exists>layers. analyzeNetworkLayers feedback = Inr layers \<and>
                layer_summary ''Transport Layer'' layers = Some (6, critical))) \<and>
   ((kv_get now ''network:visualization:v2'' (CACHE w) = Inr None \<and> \<not> put_fails (CACHE w) \<and>
     \<not> read_fails (FEEDBACK_DB w) \<and> length (rows (FEEDBACK_DB w)) = 6 \<and>
     (\<forall>r \<in> set (rows (FEEDBACK_DB w)).
        network_related r \<and> parseable (row_as_any r) \<and>
        includes_str (toLowerCase (content r)) ''tcp'')) \<longrightarrow>
      layer_summary ''Transport Layer'' (visualized_layers (fst (generateVisualization now w)))
        = Some (6, critical))"
proof -
  have a: "\<exists>layers. analyzeNetworkLayers feedback = Inr layers \<and>
                layer_summary ''Transport Layer'' layers = Some (6, critical)"
    if "length feedback = 6"
      and "\<forall>item \<in> set feedback. parseable item \<and> includes_str (item_text item) ''tcp''"
    using analyzeNetworkLayers_transport [of feedback] that
    by (auto simp: tcp_is_transport_issue)
  have r: "\<forall>l \<in> set layers.
          (status l = critical \<longleftrightarrow> 5 \<le> issueCount l) \<and>
          (status l = warning \<longleftrightarrow> 2 \<le> issueCount l \<and> issueCount l < 5) \<and>
          (status l = healthy \<longleftrightarrow> issueCount l < 2)"
    if "analyzeNetworkLayers feedback = Inr layers"
    using that by (rule analyzeNetworkLayers_status_rule)
  have v: "\<forall>l \<in> set (visualized_layers (fst (generateVisualization now w))).
          (status l = critical \<longleftrightarrow> 5 \<le> issueCount l) \<and>
          (status l = warning \<longleftrightarrow> 2 \<le> issueCount l \<and> issueCount l < 5) \<and>
          (status l = healthy \<longleftrightarrow> issueCount l < 2)"
    if m: "kv_get now ''network:visualization:v2'' (CACHE w) = Inr None"
  proof -
    from generateVisualization_miss_layers [OF m] show ?thesis
    proof
      assume "visualized_layers (fst (generateVisualization now w)) = []"
      then show ?thesis by simp
    next
      assume "analyzeNetworkLayers (fst (getNetworkFeedback w)) =
           Inr (visualized_layers (fst (generateVisualization now w)))"
      then show ?thesis by (rule analyzeNetworkLayers_status_rule)
    qed
  qed
  have c: "\<exists>counted. analyzeNetworkLayers feedback = Inr counted \<and>
                 map_option fst (layer_summary ''Transport Layer'' counted) =
                   Some (length (filter (\<lambda>item. transport_issue (item_text item)) feedback))"
    if "\<forall>item \<in> set feedback. parseable item"
    using that by (rule analyzeNetworkLayers_transport_count)
  show ?thesis
    using a r v c pipeline_tcp [of now w] by blast
qed

lemma tcp_network_rows:
  "\<forall>r \<in> set (map to_row tcp_network_items).
     network_related r \<and> parseable (row_as_any r) \<and> includes_str (toLowerCase (content r)) ''tcp''"
  by code_simp

theorem tcp_records_reach_transport_layer_witness:
  "length (map item_as_any tcp_items) = 6 \<and>
   list_all (\<lambda>item. parseable item \<and> includes_str (item_text item) ''tcp'')
     (map item_as_any tcp_items) \<and>
   (\<exists>layers. analyzeNetworkLayers (map item_as_any tcp_items) = Inr layers \<and>
             layer_summary ''Transport Layer'' layers = Some (6, critical)) \<and>
   layer_summary ''Transport Layer''
     (visualized_layers
        (fst (generateVisualization 7000
                (snd (processFeedbackDirectly tcp_network_items empty_world)))))
     = Some (6, critical) \<and>
   list_all (\<lambda>l. (status l = critical \<longleftrightarrow> 5 \<le> issueCount l) \<and>
               (status l = warning \<longleftrightarrow> 2 \<le> issueCount l \<and> issueCount l < 5) \<and>
               (status l = healthy \<longleftrightarrow> issueCount l < 2))
     (visualized_layers
        (fst (generateVisualization 7000
                (snd (processFeedbackDirectly tcp_network_items empty_world)))))"
proof -
  let ?w = "snd (processFeedbackDirectly tcp_network_items empty_world)"
  have c: "CACHE ?w = kv_empty"
    by (simp add: feed_tcp_network_items) (simp add: empty_world_def)
  have l: "length (map item_as_any tcp_items) = 6"
    by (simp add: tcp_items_def)
  have p: "\<forall>item \<in> set (map item_as_any tcp_items).
             parseable item \<and> includes_str (item_text item) ''tcp''"
    by code_simp
  have miss: "kv_get 7000 ''network:visualization:v2'' (CACHE ?w) = Inr None"
    unfolding c by (simp add: kv_empty_def kv_get_def)
  have put: "\<not> put_fails (CACHE ?w)"
    unfolding c by (simp add: kv_empty_def)
  have db: "FEEDBACK_DB ?w =
      \<lparr>rows = map to_row tcp_network_items, read_fails = False, writes_left = None\<rparr>"
    by (simp add: feed_tcp_network_items)
  have rd: "\<not> read_fails (FEEDBACK_DB ?w)"
    unfolding db by simp
  have six: "length (rows (FEEDBACK_DB ?w)) = 6"
    unfolding db by (simp add: tcp_network_items_def)
  have rs: "\<forall>r \<in> set (rows (FEEDBACK_DB ?w)).
              network_related r \<and> parseable (row_as_any r) \<and>
              includes_str (toLowerCase (content r)) ''tcp''"
    unfolding db using tcp_network_rows by simp
  show ?thesis
    using tcp_records_reach_transport_layer [of "map item_as_any tcp_items" _ 7000 ?w]
      l p miss put rd six rs
    unfolding list_all_iff by blast
qed


section \<open>Insights without the AI gateway\<close>

lemma estimateTokens_nonneg: "0 \<le> estimateTokens text"
  by (simp add: estimateTokens_def)

lemma check_quota_denied:
  assumes "quota_exhausted now w" and "0 \<le> n"
  shows "check_quota now n w = (False, w\<lparr>usageCache := roll_over ''ai:tokens:used'' (dayStart now) (usageCache w)\<rparr>)"
proof -
  have "\<not> fst (canMakeAIRequest now n (usageCache w))"
    using assms canMakeAIRequest_fst [of now n "usageCache w"]
    by (simp add: quota_exhausted_def)
  then show ?thesis
    by (simp add: check_quota_def canMakeAIRequest_def Let_def split: prod.splits)
qed

lemma used_after_rollover_roll_over:
  "used_after_rollover now (roll_over ''ai:tokens:used'' (dayStart now) c) = used_after_rollover now c"
proof (cases "map_option resetTime (c ''ai:tokens:used'') = Some (dayStart now)")
  case True
  then show ?thesis by (simp add: roll_over_def)
next
  case False
  then have r: "roll_over ''ai:tokens:used'' (dayStart now) c =
      c(''ai:tokens:used'' \<mapsto> \<lparr>count = 0, resetTime = dayStart now\<rparr>)"
    by (simp add: roll_over_def)
  have nw: "\<not> window_current now c"
    using False unfolding window_current_def .
  have "used_after_rollover now c = 0"
    by (simp add: used_after_rollover_def nw)
  moreover have "used_after_rollover now
      (c(''ai:tokens:used'' \<mapsto> \<lparr>count = 0, resetTime = dayStart now\<rparr>)) = 0"
    by (simp add: used_after_rollover_def window_current_def used_def count_or_zero_def)
  ultimately show ?thesis by (simp only: r)
qed

lemma roll_over_idem:
  "roll_over k s (roll_over k s c) = roll_over k s c"
  by (auto simp: roll_over_def)

lemma quota_exhausted_rolled: "quota_exhausted now (rolled now w) = quota_exhausted now w"
  by (simp add: quota_exhausted_def rolled_def used_after_rollover_roll_over)

lemma rolled_idem: "rolled now (rolled now w) = rolled now w"
  by (simp add: rolled_def roll_over_idem)

lemma check_quota_denied':
  "quota_exhausted now w \<Longrightarrow> 0 \<le> n \<Longrightarrow> check_quota now n w = (False, rolled now w)"
  by (simp add: check_quota_denied rolled_def)

lemma analyzeSentimentTrends_denied:
  "quota_exhausted now w \<Longrightarrow> analyzeSentimentTrends now feedback w = (SentimentDenied, rolled now w)"
  by (simp add: analyzeSentimentTrends_def check_quota_denied')

lemma extractAdvancedTrendingTopics_denied:
  "quota_exhausted now w \<Longrightarrow>
   extractAdvancedTrendingTopics now feedback w = (defaultTopics, rolled now w)"
  by (simp add: extractAdvancedTrendingTopics_def Let_def check_quota_denied' estimateTokens_nonneg)

lemma generateAdvancedRecommendations_denied:
  "quota_exhausted now w \<Longrightarrow>
   generateAdvancedRecommendations now feedback SentimentDenied w =
     (Inr defaultRecommendations, rolled now w)"
  by (simp add: generateAdvancedRecommendations_def Let_def check_quota_denied' estimateTokens_nonneg)

lemma generateInsights_denied:
  assumes "quota_exhausted now w"
  shows "generateInsights now feedback w =
     (\<lparr>criticalIssues_list = extractCriticalIssues feedback,
       trendingTopics = defaultTopics,
       recommendations = defaultRecommendations,
       priorityActions = generateDynamicPriorityActions feedback (generatePriorityMatrix feedback),
       sentimentAnalysis = SentimentDenied,
       priorityMatrix = generatePriorityMatrix feedback,
       userJourneyInsights = analyzeUserJourneys feedback\<rparr>, rolled now w)"
proof -
  have e: "quota_exhausted now (rolled now w)"
    using assms by (simp add: quota_exhausted_rolled)
  show ?thesis
    by (simp add: generateInsights_def Let_def analyzeSentimentTrends_denied [OF assms]
        extractAdvancedTrendingTopics_denied [OF e] generateAdvancedRecommendations_denied [OF e]
        rolled_idem)
qed


lemma quota_exhausted_same_day:
  "dayStart now2 = dayStart now1 \<Longrightarrow> quota_exhausted now2 w = quota_exhausted now1 w"
  unfolding quota_exhausted_def used_after_rollover_def window_current_def by simp

text \<open>
  Claim C9.  With the AI path disabled, the insights computed from a batch do not depend on
  the world or on the time: two runs give the same result, in which the sentiment, the
  trending topics and the recommendations are the fixed fallbacks and the other parts are
  functions of the batch.  No call reaches the AI gateway, and a run that follows on the
  same day gives the same result again.
\<close>

theorem generateInsights_deterministic_without_ai:
  assumes "quota_exhausted now1 w1" and "quota_exhausted now2 w2"
  shows "fst (generateInsights now1 feedback w1) = fst (generateInsights now2 feedback w2) \<and>
         sentimentAnalysis (fst (generateInsights now1 feedback w1)) = SentimentDenied \<and>
         trendingTopics (fst (generateInsights now1 feedback w1)) = defaultTopics \<and>
         recommendations (fst (generateInsights now1 feedback w1)) = defaultRecommendations \<and>
         ai_calls (snd (generateInsights now1 feedback w1)) = ai_calls w1 \<and>
         (dayStart now3 = dayStart now1 \<longrightarrow>
            fst (generateInsights now3 feedback (snd (generateInsights now1 feedback w1))) =
            fst (generateInsights now1 feedback w1))"
proof -
  let ?r = "\<lparr>criticalIssues_list = extractCriticalIssues feedback,
       trendingTopics = defaultTopics,
       recommendations = defaultRecommendations,
       priorityActions = generateDynamicPriorityActions feedback (generatePriorityMatrix feedback),
       sentimentAnalysis = SentimentDenied,
       priorityMatrix = generatePriorityMatrix feedback,
       userJourneyInsights = analyzeUserJourneys feedback\<rparr>"
  have r1: "generateInsights now1 feedback w1 = (?r, rolled now1 w1)"
    using assms(1) by (rule generateInsights_denied)
  have r2: "generateInsights now2 feedback w2 = (?r, rolled now2 w2)"
    using assms(2) by (rule generateInsights_denied)
  have r3: "generateInsights now3 feedback (rolled now1 w1) = (?r, rolled now3 (rolled now1 w1))"
    if d: "dayStart now3 = dayStart now1"
  proof -
    have "quota_exhausted now1 (rolled now1 w1)"
      using assms(1) by (simp only: quota_exhausted_rolled)
    then have "quota_exhausted now3 (rolled now1 w1)"
      by (simp only: quota_exhausted_same_day [OF d])
    then show ?thesis by (rule generateInsights_denied)
  qed
  have c: "ai_calls (rolled now1 w1) = ai_calls w1"
    by (simp add: rolled_def)
  show ?thesis
    unfolding r1 r2 fst_conv snd_conv using r3 c by simp
qed


lemma exhausted_world_exhausted:
  "dayStart now = 0 \<Longrightarrow> quota_exhausted now exhausted_world"
  by (simp add: quota_exhausted_def exhausted_world_def used_after_rollover_def
      window_current_def used_def count_or_zero_def sample_usage_def
      AI_TOKENS_PER_DAY_def AI_RESERVED_TOKENS_def)

theorem generateInsights_deterministic_without_ai_witness:
  "quota_exhausted 0 exhausted_world \<and> quota_exhausted 1000 exhausted_world \<and>
   dayStart 2000 = dayStart 0 \<and>
   fst (generateInsights 0 mockFeedback exhausted_world) =
     fst (generateInsights 1000 mockFeedback exhausted_world) \<and>
   fst (generateInsights 2000 mockFeedback (snd (generateInsights 0 mockFeedback exhausted_world))) =
     fst (generateInsights 0 mockFeedback exhausted_world)"
proof -
  have d: "dayStart 0 = 0" "dayStart 1000 = 0" "dayStart 2000 = dayStart 0"
    by (simp_all add: dayStart_def)
  have a: "quota_exhausted 0 exhausted_world"
    using d(1) by (rule exhausted_world_exhausted)
  have b: "quota_exhausted 1000 exhausted_world"
    using d(2) by (rule exhausted_world_exhausted)
  show ?thesis
    using generateInsights_deterministic_without_ai [OF a b, of mockFeedback 2000] a b d(3)
    by blast
qed


section \<open>The cache through the operations\<close>

lemma kv_delete_ok:
  "kv_delete key c = (Inr u, c') \<Longrightarrow> c' = c\<lparr>store := (store c)(key := None)\<rparr>"
  by (simp add: kv_delete_def split: if_splits)

lemma kv_delete_flags:
  "get_fails (snd (kv_delete key c)) = get_fails c"
  "put_fails (snd (kv_delete key c)) = put_fails c"
  "delete_fails (snd (kv_delete key c)) = delete_fails c"
  by (simp_all add: kv_delete_def)

lemma processFeedbackDirectly_ok_cache:
  assumes "processFeedbackDirectly feedbackBatch w = (Inr (), w')"
  shows "CACHE w' =
     (CACHE w)\<lparr>store := (store (CACHE w))(''feedback:summary'' := None, ''feedback:insights'' := None)\<rparr>"
proof -
  obtain r db where b: "insert_batch feedbackBatch (FEEDBACK_DB w) = (r, db)"
    by (cases "insert_batch feedbackBatch (FEEDBACK_DB w)")
  obtain r1 c1 where d1: "kv_delete ''feedback:summary'' (CACHE w) = (r1, c1)"
    by (cases "kv_delete ''feedback:summary'' (CACHE w)")
  obtain r2 c2 where d2: "kv_delete ''feedback:insights'' c1 = (r2, c2)"
    by (cases "kv_delete ''feedback:insights'' c1")
  have ok: "r1 = Inr ()" "r2 = Inr ()" "w' = w\<lparr>FEEDBACK_DB := db, CACHE := c2\<rparr>"
    using assms b d1 d2
    by (auto simp: processFeedbackDirectly_def split: sum.splits)
  have "c1 = (CACHE w)\<lparr>store := (store (CACHE w))(''feedback:summary'' := None)\<rparr>"
    using d1 ok(1) kv_delete_ok by blast
  moreover have "c2 = c1\<lparr>store := (store c1)(''feedback:insights'' := None)\<rparr>"
    using d2 ok(2) kv_delete_ok by blast
  ultimately show ?thesis
    using ok(3) by simp
qed

lemma getInsights_hit:
  "kv_get now ''feedback:insights:v2'' (CACHE w) = Inr (Some cached) \<Longrightarrow>
   getInsights now w = (Inr cached, w)"
  by (simp add: getInsights_def)

text \<open>
  Claim C1.  After \<open>processFeedbackDirectly\<close> has succeeded the entry under the key of
  \<open>getSummary\<close> is deleted, but the entry under \<open>feedback:insights:v2\<close>, the key that
  \<open>getInsights\<close> reads, is the one from before the write (the code deletes
  \<open>feedback:insights\<close>): a payload that \<open>getInsights\<close> would have served before the write
  is served after it.
\<close>

theorem processFeedbackDirectly_leaves_insights_entry:
  assumes "processFeedbackDirectly feedbackBatch w = (Inr (), w')"
  shows "store (CACHE w') ''feedback:summary'' = None \<and>
         store (CACHE w') ''feedback:insights:v2'' = store (CACHE w) ''feedback:insights:v2'' \<and>
         (kv_get now ''feedback:insights:v2'' (CACHE w) = Inr (Some cached) \<longrightarrow>
            getInsights now w' = (Inr cached, w'))"
proof -
  have c: "CACHE w' =
     (CACHE w)\<lparr>store := (store (CACHE w))(''feedback:summary'' := None, ''feedback:insights'' := None)\<rparr>"
    using assms by (rule processFeedbackDirectly_ok_cache)
  have s: "store (CACHE w') ''feedback:summary'' = None"
    by (simp add: c)
  have i: "store (CACHE w') ''feedback:insights:v2'' = store (CACHE w) ''feedback:insights:v2''"
    by (simp add: c)
  have g: "kv_get now ''feedback:insights:v2'' (CACHE w') = kv_get now ''feedback:insights:v2'' (CACHE w)"
    unfolding kv_get_def i by (simp add: c)
  show ?thesis
    using s i g getInsights_hit [of now w' cached] by simp
qed

lemma feed_cached_world:
  "processFeedbackDirectly [sample_critical_security] cached_world =
     (Inr (), snd (processFeedbackDirectly [sample_critical_security] cached_world))"
  by (simp add: processFeedbackDirectly_def cached_world_def empty_world_def kv_empty_def
      insert_or_replace_def kv_delete_def)

lemma cached_world_hit:
  "kv_get 1000 ''feedback:insights:v2'' (CACHE cached_world) = Inr (Some (InsightsDoc stale_insights))"
  by (simp add: kv_get_def cached_world_def empty_world_def kv_empty_def)

theorem processFeedbackDirectly_leaves_insights_entry_witness:
  "fst (processFeedbackDirectly [sample_critical_security] cached_world) = Inr () \<and>
   kv_get 1000 ''feedback:insights:v2'' (CACHE cached_world) = Inr (Some (InsightsDoc stale_insights)) \<and>
   fst (getInsights 1000 (snd (processFeedbackDirectly [sample_critical_security] cached_world)))
     = Inr (InsightsDoc stale_insights) \<and>
   store (CACHE (snd (processFeedbackDirectly [sample_critical_security] cached_world)))
     ''feedback:summary'' = None"
proof -
  have f: "fst (processFeedbackDirectly [sample_critical_security] cached_world) = Inr ()"
    using feed_cached_world by (metis fst_conv)
  show ?thesis
    using processFeedbackDirectly_leaves_insights_entry [OF feed_cached_world, of 1000
        "InsightsDoc stale_insights"] cached_world_hit f
    by simp
qed


section \<open>Failures of the gateways\<close>














lemma kv_put_answers:
  "\<not> put_fails c \<Longrightarrow> fst (kv_put now key doc ttl c) = Inr ()"
  by (simp add: kv_put_def)











section \<open>The store behind the aggregator\<close>







section \<open>The AI gateway behind the stages\<close>























section \<open>The cache in front of the operations\<close>













end
